theory Spec2Isabelle
  imports Main "HOL-Library.Word"
begin

unbundle bit_operations_syntax

section \<open>h5coro: a shallow embedding of \<open>src/h5coro/h5coro.py\<close>\<close>

text \<open>
  Python integers are unbounded and are modelled as \<^typ>\<open>int\<close>; a \<open>bytes\<close> value is a
  list of 8-bit words. Every exception of the source is a value: \<open>FatalError\<close> (with
  the fixed part of its message) is the class that \<open>readMessage\<close> catches, every other
  constructor is an exception of the Python runtime that no handler of the source catches.
  Calls of the logger are left out; where a branch on \<open>verbose\<close> reads fields, the
  reads are modelled.
\<close>

type_synonym byte = "8 word"

datatype error =
    FatalError string
  | AttributeError string
  | TypeError string
  | KeyError string
  | IndexError string
  | UnboundLocalError string
  | StructError
  | UnicodeDecodeError
  | OutOfFuel

subsection \<open>Python slices\<close>

definition clamp_index :: "int \<Rightarrow> int \<Rightarrow> int" where
  "clamp_index n i = (if i < 0 then max 0 (n + i) else min i n)"

definition slice :: "'a list \<Rightarrow> int \<Rightarrow> int \<Rightarrow> 'a list" where
  \<comment> \<open>\<open>xs[a:b]\<close>\<close>
  "slice xs a b =
     (let n = int (length xs); lo = clamp_index n a; hi = clamp_index n b
      in take (nat (hi - lo)) (drop (nat lo) xs))"

definition slice_from :: "'a list \<Rightarrow> int \<Rightarrow> 'a list" where
  \<comment> \<open>\<open>xs[a:]\<close>\<close>
  "slice_from xs a = drop (nat (clamp_index (int (length xs)) a)) xs"

definition slice_to :: "'a list \<Rightarrow> int \<Rightarrow> 'a list" where
  \<comment> \<open>\<open>xs[:b]\<close>\<close>
  "slice_to xs b = take (nat (clamp_index (int (length xs)) b)) xs"

subsection \<open>class H5Coro: the cache and \<open>ioRequest\<close>\<close>

text \<open>
  The driver is an external collaborator: \<open>driver r off len\<close> is what
  \<open>driver.read(off, len)\<close> returns. \<open>driver_reads\<close> records, oldest first, the
  calls made to it, so that the number of driver reads of an operation can be
  stated. The lock is not modelled: one thread runs.
\<close>

record h5coro =
  driver :: "int \<Rightarrow> int \<Rightarrow> byte list"
  driver_reads :: "(int \<times> int) list"
  cache :: "int \<rightharpoonup> byte list"
  offsetSize :: int
  lengthSize :: int
  baseAddress :: int
  rootAddress :: int

definition CACHE_LINE_SIZE :: int where
  "CACHE_LINE_SIZE = 0x10"

definition CACHE_LINE_MASK :: int where
  "CACHE_LINE_MASK = 0xFFFFFFFFFFFFFFF0"

definition driver_read :: "h5coro \<Rightarrow> int \<Rightarrow> int \<Rightarrow> byte list \<times> h5coro" where
  "driver_read r off len =
     (driver r off len, r\<lparr>driver_reads := driver_reads r @ [(off, len)]\<rparr>)"

definition populate :: "h5coro \<Rightarrow> int \<Rightarrow> h5coro" where
  \<comment> \<open>\<open>if line not in self.cache: self.cache[line] = self.driver.read(line, CACHE_LINE_SIZE)\<close>\<close>
  "populate r line =
     (case cache r line of
        Some _ \<Rightarrow> r
      | None \<Rightarrow>
          (let (bs, r1) = driver_read r line CACHE_LINE_SIZE
           in r1\<lparr>cache := (cache r1)(line \<mapsto> bs)\<rparr>))"

definition cached :: "h5coro \<Rightarrow> int \<Rightarrow> byte list" where
  \<comment> \<open>\<open>self.cache[line]\<close>, read only after \<open>populate\<close>\<close>
  "cached r line = (case cache r line of Some bs \<Rightarrow> bs | None \<Rightarrow> [])"

definition ioRequest :: "h5coro \<Rightarrow> int \<Rightarrow> int \<Rightarrow> byte list \<times> h5coro" where
  "ioRequest r pos sz =
     (if sz \<le> CACHE_LINE_SIZE then
        (let cache_line = (pos + baseAddress r) AND CACHE_LINE_MASK;
             r1 = populate r cache_line;
             start_index = (pos + baseAddress r) - cache_line;
             stop_index = start_index + sz
         in if stop_index \<le> CACHE_LINE_SIZE then
              (slice (cached r1 cache_line) start_index stop_index, r1)
            else
              (let next_cache_line = (cache_line + stop_index) AND CACHE_LINE_MASK;
                   r2 = populate r1 next_cache_line;
                   next_stop_index = stop_index - CACHE_LINE_SIZE
               in (slice_from (cached r2 cache_line) start_index
                     @ slice_to (cached r2 next_cache_line) next_stop_index, r2)))
      else driver_read r (pos + baseAddress r) sz)"

text \<open>
  A driver over a resource whose byte at absolute offset \<open>i\<close> is \<open>f i\<close>: it returns
  exactly the requested bytes.
\<close>

definition file_read :: "(int \<Rightarrow> byte) \<Rightarrow> int \<Rightarrow> int \<Rightarrow> byte list" where
  "file_read f off len = map (\<lambda>i. f (off + int i)) [0..<nat len]"

definition cache_ok :: "(int \<Rightarrow> byte) \<Rightarrow> h5coro \<Rightarrow> bool" where
  \<comment> \<open>every cached line holds what the driver returned for it\<close>
  "cache_ok f r = (\<forall>line bs. cache r line = Some bs \<longrightarrow> bs = file_read f line CACHE_LINE_SIZE)"

text \<open>A resource for concrete runs: byte \<open>i\<close> of the file is \<open>i mod 256\<close>, nothing cached.\<close>

definition counting_resource :: h5coro where
  "counting_resource = \<lparr>driver = file_read (\<lambda>i. word_of_int i), driver_reads = [],
     cache = Map.empty, offsetSize = 8, lengthSize = 8, baseAddress = 0, rootAddress = 0\<rparr>"

text \<open>
  The states of a resource over the file \<open>f\<close> that a run can be in. The constructor
  starts with the driver and an empty cache; \<open>ioRequest\<close> is the only method that
  writes \<open>self.cache\<close>; \<open>readSuperblock\<close> and the constructor assign
  \<open>offsetSize\<close>, \<open>lengthSize\<close>, \<open>baseAddress\<close> and \<open>rootAddress\<close> between
  requests. Nothing assigns \<open>self.driver\<close> again.
\<close>

inductive reachable :: "(int \<Rightarrow> byte) \<Rightarrow> h5coro \<Rightarrow> bool" for f where
  constructed: "driver r = file_read f \<Longrightarrow> cache r = Map.empty \<Longrightarrow> reachable f r"
| requested: "reachable f r \<Longrightarrow> reachable f (snd (ioRequest r off n))"
| superblock_read:
    "reachable f r \<Longrightarrow>
     reachable f (r\<lparr>offsetSize := osz, lengthSize := lsz, baseAddress := base, rootAddress := root\<rparr>)"

subsection \<open>Python lists\<close>

definition getitem :: "'a list \<Rightarrow> int \<Rightarrow> error + 'a" where
  \<comment> \<open>\<open>xs[i]\<close>: a negative index counts from the end, one out of range raises\<close>
  "getitem xs i =
     (if 0 \<le> i \<and> i < int (length xs) then Inr (xs ! nat i)
      else if i < 0 \<and> - int (length xs) \<le> i then Inr (xs ! nat (int (length xs) + i))
      else Inl (IndexError ''list index out of range''))"

subsection \<open>\<open>readBTreeV1\<close>: which children are read, and where a chunk goes\<close>

text \<open>
  The two computations of \<open>readBTreeV1\<close> that decide which child of a node is
  processed and where a leaf chunk is placed: the second key of a child, the inclusion
  test, and the loop that computes \<open>chunk_offset\<close>.
\<close>

definition child_key2 :: "int \<Rightarrow> int \<Rightarrow> nat \<Rightarrow> int list \<Rightarrow> error + int" where
  \<comment> \<open>\<open>child_key2 = next_node.row_key\<close>, replaced by \<open>self.dimensions[0]\<close> when
      \<open>next_node['chunk_size'] == 0 and self.ndims > 0\<close>\<close>
  "child_key2 next_chunk_size next_row_key ndims dimensions =
     (if next_chunk_size = 0 \<and> ndims > 0 then getitem dimensions 0 else Inr next_row_key)"

definition data_key1 :: "int \<Rightarrow> int" where
  "data_key1 datasetStartRow = datasetStartRow"

definition data_key2 :: "int \<Rightarrow> int \<Rightarrow> int" where
  "data_key2 datasetStartRow datasetNumRows = datasetStartRow + datasetNumRows - 1"

definition check_inclusion :: "int \<Rightarrow> int \<Rightarrow> int \<Rightarrow> int \<Rightarrow> bool" where
  \<comment> \<open>the test under \<open># check inclusion\<close>\<close>
  "check_inclusion dk1 dk2 ck1 ck2 =
     ((dk1 \<ge> ck1 \<and> dk1 < ck2) \<or>
      (dk2 \<ge> ck1 \<and> dk2 < ck2) \<or>
      (ck1 \<ge> dk1 \<and> ck1 \<le> dk2) \<or>
      (ck2 > dk1 \<and> ck2 < dk2))"

primrec mul_items :: "int list \<Rightarrow> nat list \<Rightarrow> int \<Rightarrow> error + int" where
  \<comment> \<open>\<open>for k in ks: acc *= xs[k]\<close>\<close>
  "mul_items xs [] acc = Inr acc"
| "mul_items xs (k # ks) acc =
     (case getitem xs (int k) of
        Inl e \<Rightarrow> Inl e
      | Inr d \<Rightarrow> mul_items xs ks (acc * d))"

definition slice_size :: "int list \<Rightarrow> int \<Rightarrow> int list \<Rightarrow> int list \<Rightarrow> nat \<Rightarrow> nat \<Rightarrow> error + int" where
  \<comment> \<open>the body of \<open>for i in range(self.ndims)\<close> up to \<open>chunk_offset += slice_size\<close>\<close>
  "slice_size node_slice typeSize chunkDimensions dimensions ndims i =
     (case getitem node_slice (int i) of
        Inl e \<Rightarrow> Inl e
      | Inr s \<Rightarrow>
          (case mul_items chunkDimensions [0..<i] (s * typeSize) of
             Inl e \<Rightarrow> Inl e
           | Inr v \<Rightarrow> mul_items dimensions [i + 1..<ndims] v))"

primrec chunk_offset_loop ::
  "int list \<Rightarrow> int \<Rightarrow> int list \<Rightarrow> int list \<Rightarrow> nat \<Rightarrow> nat list \<Rightarrow> int \<Rightarrow> error + int" where
  "chunk_offset_loop node_slice typeSize chunkDimensions dimensions ndims [] chunk_offset =
     Inr chunk_offset"
| "chunk_offset_loop node_slice typeSize chunkDimensions dimensions ndims (i # is) chunk_offset =
     (case slice_size node_slice typeSize chunkDimensions dimensions ndims i of
        Inl e \<Rightarrow> Inl e
      | Inr v \<Rightarrow>
          chunk_offset_loop node_slice typeSize chunkDimensions dimensions ndims is
            (chunk_offset + v))"

definition chunk_offset :: "int list \<Rightarrow> int \<Rightarrow> int list \<Rightarrow> int list \<Rightarrow> nat \<Rightarrow> error + int" where
  \<comment> \<open>\<open># calculate chunk location\<close>\<close>
  "chunk_offset node_slice typeSize chunkDimensions dimensions ndims =
     chunk_offset_loop node_slice typeSize chunkDimensions dimensions ndims [0..<ndims] 0"

subsection \<open>Module globals and the state of an \<open>H5Dataset\<close>\<close>

text \<open>
  \<open>errorChecking\<close> and \<open>verbose\<close> are module-level flags of the source (both
  \<open>True\<close> there); the functions below take them as a parameter \<open>g\<close>. A Python
  \<open>str\<close> is modelled by the characters of its UTF-8 encoding.
\<close>

record globals =
  errorChecking :: bool
  verbose :: bool

record h5dataset =
  resourceObject :: h5coro
  dataset :: string
  datasetStartRow :: int
  datasetNumRows :: int
  metaOnly :: bool
  pos :: int
  datasetPath :: "string list"
  datasetLevel :: int
  datasetFound :: bool
  ndims :: "int option"
  dimensions :: "int list"
  typeSize :: int
  type :: "int option"
  signedval :: bool
  fillsize :: int
  fillvalue :: "int option"
  layout :: "int option"
  size' :: int
  address :: int
  chunkElements :: int
  chunkDimensions :: "int list"
  elementSize :: int
  dataChunkBufferSize :: "int option"
  filter' :: "int \<rightharpoonup> bool"

definition ALL_ROWS :: int where "ALL_ROWS = -1"
definition MAX_NDIMS :: int where "MAX_NDIMS = 2"
definition CUSTOM_V1_FLAG :: int where "CUSTOM_V1_FLAG = 0x80"

definition H5_OHDR_SIGNATURE_LE :: int where "H5_OHDR_SIGNATURE_LE = 0x5244484F"
definition H5_FRHP_SIGNATURE_LE :: int where "H5_FRHP_SIGNATURE_LE = 0x50485246"
definition H5_OCHK_SIGNATURE_LE :: int where "H5_OCHK_SIGNATURE_LE = 0x4B48434F"
definition H5_TREE_SIGNATURE_LE :: int where "H5_TREE_SIGNATURE_LE = 0x45455254"
definition H5_HEAP_SIGNATURE_LE :: int where "H5_HEAP_SIGNATURE_LE = 0x50414548"
definition H5_SNOD_SIGNATURE_LE :: int where "H5_SNOD_SIGNATURE_LE = 0x444F4E53"

definition FIXED_POINT_TYPE :: int where "FIXED_POINT_TYPE = 0"
definition FLOATING_POINT_TYPE :: int where "FLOATING_POINT_TYPE = 1"
definition STRING_TYPE :: int where "STRING_TYPE = 3"
definition VARIABLE_LENGTH_TYPE :: int where "VARIABLE_LENGTH_TYPE = 9"

definition COMPACT_LAYOUT :: int where "COMPACT_LAYOUT = 0"
definition CONTIGUOUS_LAYOUT :: int where "CONTIGUOUS_LAYOUT = 1"
definition CHUNKED_LAYOUT :: int where "CHUNKED_LAYOUT = 2"

definition DATASPACE_MSG :: int where "DATASPACE_MSG = 0x1"
definition LINK_INFO_MSG :: int where "LINK_INFO_MSG = 0x2"
definition DATATYPE_MSG :: int where "DATATYPE_MSG = 0x3"
definition FILL_VALUE_MSG :: int where "FILL_VALUE_MSG = 0x5"
definition LINK_MSG :: int where "LINK_MSG = 0x6"
definition DATA_LAYOUT_MSG :: int where "DATA_LAYOUT_MSG = 0x8"
definition FILTER_MSG :: int where "FILTER_MSG = 0xB"
definition ATTRIBUTE_MSG :: int where "ATTRIBUTE_MSG = 0xC"
definition HEADER_CONT_MSG :: int where "HEADER_CONT_MSG = 0x10"
definition SYMBOL_TABLE_MSG :: int where "SYMBOL_TABLE_MSG = 0x11"
definition ATTRIBUTE_INFO_MSG :: int where "ATTRIBUTE_INFO_MSG = 0x15"

definition DEFLATE_FILTER :: int where "DEFLATE_FILTER = 1"
definition SHUFFLE_FILTER :: int where "SHUFFLE_FILTER = 2"
definition FLETCHER32_FILTER :: int where "FLETCHER32_FILTER = 3"
definition SZIP_FILTER :: int where "SZIP_FILTER = 4"
definition NBIT_FILTER :: int where "NBIT_FILTER = 5"
definition SCALEOFFSET_FILTER :: int where "SCALEOFFSET_FILTER = 6"

definition INVALID_VALUE :: "int \<rightharpoonup> int" where
  "INVALID_VALUE = [1 \<mapsto> 0xFF, 2 \<mapsto> 0xFFFF, 4 \<mapsto> 0xFFFFFFFF, 8 \<mapsto> 0xFFFFFFFFFFFFFFFF]"

text \<open>\<open>dataset.split('/')\<close>: the separator splits everywhere, empty components are kept.\<close>

fun split :: "char \<Rightarrow> string \<Rightarrow> string list" where
  "split sep [] = [[]]"
| "split sep (c # cs) =
     (if c = sep then [] # split sep cs
      else (case split sep cs of
              [] \<Rightarrow> [[c]]
            | w # ws \<Rightarrow> (c # w) # ws))"

definition init :: "h5coro \<Rightarrow> string \<Rightarrow> h5dataset" where
  \<comment> \<open>\<open>H5Dataset.__init__\<close>\<close>
  "init res ds =
     \<lparr>resourceObject = res,
      dataset = ds,
      datasetStartRow = 0,
      datasetNumRows = ALL_ROWS,
      metaOnly = False,
      pos = rootAddress res,
      datasetPath = split CHR ''/'' ds,
      datasetLevel = 0,
      datasetFound = False,
      ndims = None,
      dimensions = [],
      typeSize = 0,
      type = None,
      signedval = True,
      fillsize = 0,
      fillvalue = None,
      layout = None,
      size' = 0,
      address = 0,
      chunkElements = 0,
      chunkDimensions = [],
      elementSize = 0,
      dataChunkBufferSize = None,
      filter' = [DEFLATE_FILTER \<mapsto> False, SHUFFLE_FILTER \<mapsto> False,
                 FLETCHER32_FILTER \<mapsto> False, SZIP_FILTER \<mapsto> False,
                 NBIT_FILTER \<mapsto> False, SCALEOFFSET_FILTER \<mapsto> False]\<rparr>"

subsection \<open>Running a method: a result or an exception, and the state either way\<close>

text \<open>
  A method of \<open>H5Dataset\<close> takes the state and gives \<open>Inr (value, state)\<close> when it
  returns and \<open>Inl (exception, state)\<close> when it raises; the state at the raise
  matters, since \<open>readMessage\<close> goes on from it after catching a \<open>FatalError\<close>.
\<close>

type_synonym 'a result = "(error \<times> h5dataset) + ('a \<times> h5dataset)"

definition ret :: "'a \<Rightarrow> h5dataset \<Rightarrow> 'a result" where
  "ret a s = Inr (a, s)"

definition raise :: "error \<Rightarrow> h5dataset \<Rightarrow> 'a result" where
  "raise e s = Inl (e, s)"

definition bindR :: "(h5dataset \<Rightarrow> 'a result) \<Rightarrow> ('a \<Rightarrow> h5dataset \<Rightarrow> 'b result) \<Rightarrow> h5dataset \<Rightarrow> 'b result" where
  "bindR m f s = (case m s of Inl x \<Rightarrow> Inl x | Inr (a, s') \<Rightarrow> f a s')"

definition modify :: "(h5dataset \<Rightarrow> h5dataset) \<Rightarrow> h5dataset \<Rightarrow> unit result" where
  "modify f s = Inr ((), f s)"

definition skip :: "int \<Rightarrow> h5dataset \<Rightarrow> unit result" where
  \<comment> \<open>\<open>self.pos += n\<close>\<close>
  "skip n = modify (\<lambda>s. s\<lparr>pos := pos s + n\<rparr>)"

definition seek :: "int \<Rightarrow> h5dataset \<Rightarrow> unit result" where
  \<comment> \<open>\<open>self.pos = p\<close>\<close>
  "seek p = modify (\<lambda>s. s\<lparr>pos := p\<rparr>)"

definition whenever :: "bool \<Rightarrow> (h5dataset \<Rightarrow> unit result) \<Rightarrow> h5dataset \<Rightarrow> unit result" where
  \<comment> \<open>\<open>if c: m\<close>\<close>
  "whenever c m = (if c then m else ret ())"

definition bytes_read_since :: "int \<Rightarrow> h5dataset \<Rightarrow> int result" where
  \<comment> \<open>\<open>return self.pos - starting_position\<close>\<close>
  "bytes_read_since starting_position s = Inr (pos s - starting_position, s)"

subsection \<open>\<open>readField\<close>, \<open>readArray\<close> and decoding\<close>

definition le_uint :: "byte list \<Rightarrow> int" where
  \<comment> \<open>\<open>struct.unpack('<B' | '<H' | '<I' | '<Q', raw)[0]\<close>\<close>
  "le_uint raw = foldr (\<lambda>b acc. uint b + 256 * acc) raw 0"

definition readField :: "int \<Rightarrow> h5dataset \<Rightarrow> int result" where
  "readField sz s =
     (let (raw, r) = ioRequest (resourceObject s) (pos s) sz;
          s1 = s\<lparr>resourceObject := r, pos := pos s + sz\<rparr>
      in if sz = 1 \<or> sz = 2 \<or> sz = 4 \<or> sz = 8 then
           (if int (length raw) = sz then Inr (le_uint raw, s1) else Inl (StructError, s1))
         else Inl (KeyError ''SIZE_2_FORMAT'', s1))"

definition readArray :: "int \<Rightarrow> h5dataset \<Rightarrow> (byte list) result" where
  "readArray sz s =
     (let (raw, r) = ioRequest (resourceObject s) (pos s) sz
      in Inr (raw, s\<lparr>resourceObject := r, pos := pos s + sz\<rparr>))"

fun utf8_valid :: "int list \<Rightarrow> bool" where
  \<comment> \<open>the byte sequences the strict UTF-8 decoder accepts\<close>
  "utf8_valid [] = True"
| "utf8_valid (b # bs) =
     (if b < 0x80 then utf8_valid bs
      else if 0xC2 \<le> b \<and> b \<le> 0xDF then
        (case bs of
           c1 # r \<Rightarrow> 0x80 \<le> c1 \<and> c1 \<le> 0xBF \<and> utf8_valid r
         | _ \<Rightarrow> False)
      else if 0xE0 \<le> b \<and> b \<le> 0xEF then
        (case bs of
           c1 # c2 # r \<Rightarrow>
             (if b = 0xE0 then 0xA0 else 0x80) \<le> c1 \<and> c1 \<le> (if b = 0xED then 0x9F else 0xBF) \<and>
             0x80 \<le> c2 \<and> c2 \<le> 0xBF \<and> utf8_valid r
         | _ \<Rightarrow> False)
      else if 0xF0 \<le> b \<and> b \<le> 0xF4 then
        (case bs of
           c1 # c2 # c3 # r \<Rightarrow>
             (if b = 0xF0 then 0x90 else 0x80) \<le> c1 \<and> c1 \<le> (if b = 0xF4 then 0x8F else 0xBF) \<and>
             0x80 \<le> c2 \<and> c2 \<le> 0xBF \<and> 0x80 \<le> c3 \<and> c3 \<le> 0xBF \<and> utf8_valid r
         | _ \<Rightarrow> False)
      else False)"

definition decode :: "byte list \<Rightarrow> h5dataset \<Rightarrow> string result" where
  \<comment> \<open>\<open>raw.decode('utf-8')\<close>\<close>
  "decode raw =
     (if utf8_valid (map uint raw) then ret (map (\<lambda>b. char_of (uint b)) raw)
      else raise UnicodeDecodeError)"

definition align8 :: "int \<Rightarrow> int" where
  \<comment> \<open>\<open>(8 - (n % 8)) % 8\<close>\<close>
  "align8 n = (8 - (n mod 8)) mod 8"

subsection \<open>Message handlers that do not recurse\<close>

primrec read_dimensions :: "nat \<Rightarrow> h5dataset \<Rightarrow> unit result" where
  \<comment> \<open>\<open>for x in range(self.ndims): self.dimensions.append(self.readField(lengthSize))\<close>\<close>
  "read_dimensions 0 = ret ()"
| "read_dimensions (Suc n) =
     (\<lambda>s. bindR (readField (lengthSize (resourceObject s))) (\<lambda>dimension.
          bindR (modify (\<lambda>s. s\<lparr>dimensions := dimensions s @ [dimension]\<rparr>)) (\<lambda>_.
          read_dimensions n)) s)"

definition dataspaceMsgHandler :: "globals \<Rightarrow> int \<Rightarrow> int \<Rightarrow> h5dataset \<Rightarrow> int result" where
  "dataspaceMsgHandler g msg_size obj_hdr_flags s =
     (let MAX_DIM_PRESENT = 0x1;
          PERM_INDEX_PRESENT = 0x2;
          starting_position = pos s
      in bindR (readField 1) (\<lambda>version.
         bindR (readField 1) (\<lambda>dimensionality.
         bindR (readField 1) (\<lambda>flags.
         bindR (skip (if version = 1 then 5 else 1)) (\<lambda>_.
         bindR (whenever (errorChecking g)
                  (if version \<noteq> 1 \<or> version \<noteq> 2 then
                     raise (FatalError ''unsupported dataspace version'')
                   else if flags AND PERM_INDEX_PRESENT \<noteq> 0 then
                     raise (FatalError ''unsupported permutation indexes'')
                   else if dimensionality > MAX_NDIMS then
                     raise (FatalError ''unsupported number of dimensions'')
                   else ret ())) (\<lambda>_.
         bindR (modify (\<lambda>s. s\<lparr>ndims := Some (min dimensionality MAX_NDIMS)\<rparr>)) (\<lambda>_.
         bindR (whenever (min dimensionality MAX_NDIMS > 0)
                  (bindR (read_dimensions (nat (min dimensionality MAX_NDIMS))) (\<lambda>_.
                   whenever (flags AND MAX_DIM_PRESENT \<noteq> 0)
                     (\<lambda>s. skip (dimensionality * lengthSize (resourceObject s)) s)))) (\<lambda>_.
         bytes_read_since starting_position))))))) s)"

definition datatypeMsgHandler :: "globals \<Rightarrow> int \<Rightarrow> int \<Rightarrow> h5dataset \<Rightarrow> int result" where
  "datatypeMsgHandler g msg_size obj_hdr_flags s =
     (let starting_position = pos s
      in bindR (readField 4) (\<lambda>version_class.
         bindR (readField 4) (\<lambda>type_size.
         let version = drop_bit 4 (version_class AND 0xF0);
             databits = drop_bit 8 version_class;
             ty = version_class AND 0x0F
         in
         bindR (modify (\<lambda>s. s\<lparr>typeSize := type_size, type := Some ty,
                                   signedval := (drop_bit 3 (databits AND 0x08) = 1)\<rparr>)) (\<lambda>_.
         bindR (whenever (errorChecking g \<and> version \<noteq> 1)
                  (raise (FatalError ''unsupported datatype version''))) (\<lambda>_.
         bindR (if ty = FIXED_POINT_TYPE then
                  (if verbose g then
                     bindR (readField 2) (\<lambda>bit_offset.
                     bindR (readField 2) (\<lambda>bit_precision. ret ()))
                   else skip 4)
                else if ty = FLOATING_POINT_TYPE then
                  (if verbose g then
                     bindR (readField 2) (\<lambda>bit_offset.
                     bindR (readField 2) (\<lambda>bit_precision.
                     bindR (readField 1) (\<lambda>exp_location.
                     bindR (readField 1) (\<lambda>exp_size.
                     bindR (readField 1) (\<lambda>mant_location.
                     bindR (readField 1) (\<lambda>mant_size.
                     bindR (readField 4) (\<lambda>exp_bias. ret ())))))))
                   else skip 12)
                else if ty = VARIABLE_LENGTH_TYPE then
                  raise (FatalError ''variable length data types require reading a global heap, which is not yet supported'')
                else if ty = STRING_TYPE then
                  modify (\<lambda>s. s\<lparr>typeSize := 1, signedval := True\<rparr>)
                else if errorChecking g then
                  raise (FatalError ''unsupported datatype'')
                else ret ()) (\<lambda>_.
         bytes_read_since starting_position))))) s)"

definition fillvalueMsgHandler :: "globals \<Rightarrow> int \<Rightarrow> int \<Rightarrow> h5dataset \<Rightarrow> int result" where
  "fillvalueMsgHandler g msg_size obj_hdr_flags s =
     (let FILL_VALUE_DEFINED = 0x20;
          starting_position = pos s
      in bindR (readField 1) (\<lambda>version.
         bindR (whenever (errorChecking g \<and> version \<noteq> 2 \<and> version \<noteq> 3)
                  (raise (FatalError ''invalid fill value version''))) (\<lambda>_.
         bindR (if version = 2 then
                  bindR (if verbose g then
                           bindR (readField 1) (\<lambda>space_allocation_time.
                           bindR (readField 1) (\<lambda>fill_value_write_time. ret ()))
                         else skip 2) (\<lambda>_.
                  bindR (readField 1) (\<lambda>fill_value_defined.
                  whenever (fill_value_defined \<noteq> 0)
                    (bindR (readField 4) (\<lambda>fs.
                     bindR (modify (\<lambda>s. s\<lparr>fillsize := fs\<rparr>)) (\<lambda>_.
                     whenever (fs > 0)
                       (bindR (readField fs) (\<lambda>fv.
                        modify (\<lambda>s. s\<lparr>fillvalue := Some fv\<rparr>))))))))
                else
                  bindR (readField 1) (\<lambda>flags.
                  whenever (flags AND FILL_VALUE_DEFINED \<noteq> 0)
                    (bindR (readField 4) (\<lambda>fs.
                     bindR (modify (\<lambda>s. s\<lparr>fillsize := fs\<rparr>)) (\<lambda>_.
                     bindR (readField fs) (\<lambda>fv.
                     modify (\<lambda>s. s\<lparr>fillvalue := Some fv\<rparr>))))))) (\<lambda>_.
         bytes_read_since starting_position))) s)"

primrec read_chunk_dimensions :: "nat \<Rightarrow> h5dataset \<Rightarrow> unit result" where
  \<comment> \<open>the loop \<open>for _ in range(chunk_num_dim)\<close> of the chunked layout\<close>
  "read_chunk_dimensions 0 = ret ()"
| "read_chunk_dimensions (Suc n) =
     bindR (readField 4) (\<lambda>chunk_dimension.
     bindR (modify (\<lambda>s. s\<lparr>chunkDimensions := chunkDimensions s @ [chunk_dimension],
                               chunkElements := chunkElements s * chunk_dimension\<rparr>)) (\<lambda>_.
     read_chunk_dimensions n))"

definition datalayoutMsgHandler :: "globals \<Rightarrow> int \<Rightarrow> int \<Rightarrow> h5dataset \<Rightarrow> int result" where
  "datalayoutMsgHandler g msg_size obj_hdr_flags s =
     (let starting_position = pos s
      in bindR (readField 1) (\<lambda>version.
         bindR (readField 1) (\<lambda>lay.
         bindR (modify (\<lambda>s. s\<lparr>layout := Some lay\<rparr>)) (\<lambda>_.
         bindR (whenever (errorChecking g \<and> version \<noteq> 3)
                  (raise (FatalError ''invalid data layout version''))) (\<lambda>_.
         bindR (if lay = COMPACT_LAYOUT then
                  bindR (readField 2) (\<lambda>sz.
                  bindR (modify (\<lambda>s. s\<lparr>size' := sz, address := pos s\<rparr>)) (\<lambda>_.
                  skip sz))
                else if lay = CONTIGUOUS_LAYOUT then
                  (\<lambda>s. bindR (readField (offsetSize (resourceObject s))) (\<lambda>addr.
                        bindR (modify (\<lambda>s. s\<lparr>address := addr\<rparr>)) (\<lambda>_.
                        (\<lambda>s. bindR (readField (lengthSize (resourceObject s))) (\<lambda>sz.
                              modify (\<lambda>s. s\<lparr>size' := sz\<rparr>)) s))) s)
                else if lay = CHUNKED_LAYOUT then
                  bindR (readField 1) (\<lambda>rank_plus_one.
                  let chunk_num_dim = min (rank_plus_one - 1) MAX_NDIMS in
                  bindR (\<lambda>s. whenever (errorChecking g \<and> ndims s \<noteq> None \<and> Some chunk_num_dim \<noteq> ndims s)
                                (raise (FatalError ''number of chunk dimensions does not match dimensionality of data'')) s) (\<lambda>_.
                  bindR (\<lambda>s. readField (offsetSize (resourceObject s)) s) (\<lambda>addr.
                  bindR (modify (\<lambda>s. s\<lparr>address := addr\<rparr>)) (\<lambda>_.
                  bindR (whenever (chunk_num_dim > 0)
                           (bindR (modify (\<lambda>s. s\<lparr>chunkElements := 1\<rparr>)) (\<lambda>_.
                            read_chunk_dimensions (nat chunk_num_dim)))) (\<lambda>_.
                  bindR (readField 4) (\<lambda>es.
                  modify (\<lambda>s. s\<lparr>elementSize := es\<rparr>)))))))
                else if errorChecking g then
                  raise (FatalError ''unsupported data layout'')
                else ret ()) (\<lambda>_.
         bytes_read_since starting_position))))) s)"

primrec read_filters :: "globals \<Rightarrow> int \<Rightarrow> nat \<Rightarrow> h5dataset \<Rightarrow> unit result" where
  \<comment> \<open>the loop \<open>for f in range(num_filters)\<close>\<close>
  "read_filters g version 0 = ret ()"
| "read_filters g version (Suc n) =
     bindR (readField 2) (\<lambda>filter_id.
     bindR (if version = 1 \<or> filter_id \<ge> 256 then readField 2 else ret 0) (\<lambda>name_len.
     bindR (readField 2) (\<lambda>flags.
     bindR (readField 2) (\<lambda>num_parms.
     bindR (whenever (errorChecking g \<and> flags \<noteq> 0 \<and> flags \<noteq> 1)
              (raise (FatalError ''invalid flags in filter message''))) (\<lambda>_.
     bindR (whenever (name_len > 0)
              (bindR (readArray name_len) (\<lambda>raw.
               bindR (decode raw) (\<lambda>filter_name.
               skip (align8 name_len))))) (\<lambda>_.
     bindR (modify (\<lambda>s. s\<lparr>filter' := (filter' s)(filter_id \<mapsto> True)\<rparr>)) (\<lambda>_.
     bindR (skip (num_parms * 4)) (\<lambda>_.
     bindR (whenever (version = 1 \<and> num_parms mod 2 = 1) (skip 4)) (\<lambda>_.
     read_filters g version n)))))))))"

definition filterMsgHandler :: "globals \<Rightarrow> int \<Rightarrow> int \<Rightarrow> h5dataset \<Rightarrow> int result" where
  "filterMsgHandler g msg_size obj_hdr_flags s =
     (let starting_position = pos s
      in bindR (readField 1) (\<lambda>version.
         bindR (readField 1) (\<lambda>num_filters.
         bindR (whenever (errorChecking g \<and> version \<noteq> 1 \<and> version \<noteq> 2)
                  (raise (FatalError ''invalid filter version''))) (\<lambda>_.
         bindR (whenever (version = 1) (skip 6)) (\<lambda>_.
         bindR (read_filters g version (nat num_filters)) (\<lambda>_.
         bytes_read_since starting_position))))) s)"

text \<open>
  \<open>attributeMsgHandler\<close> tests \<open>self.datasetPath.length()\<close>; a Python list has no
  attribute \<open>length\<close>, so the test raises \<open>AttributeError\<close> whenever it is reached
  and the rest of the handler never runs.
\<close>

definition attributeMsgHandler :: "globals \<Rightarrow> int \<Rightarrow> int \<Rightarrow> h5dataset \<Rightarrow> int result" where
  "attributeMsgHandler g msg_size obj_hdr_flags s =
     (let starting_position = pos s
      in bindR (readField 1) (\<lambda>version.
         bindR (skip 1) (\<lambda>_.
         bindR (readField 2) (\<lambda>name_size.
         bindR (readField 2) (\<lambda>datatype_size.
         bindR (readField 2) (\<lambda>dataspace_size.
         bindR (whenever (errorChecking g \<and> version \<noteq> 1)
                  (raise (FatalError ''invalid attribute version''))) (\<lambda>_.
         bindR (readArray name_size) (\<lambda>raw.
         bindR (decode raw) (\<lambda>attr_name.
         bindR (skip (align8 name_size)) (\<lambda>_.
         raise (AttributeError ''length'')))))))))) s)"

subsection \<open>The fractal heap\<close>

text \<open>
  \<open>readFractalHeap\<close> calls \<open>readDirectBlock\<close> and \<open>readIndirectBlock\<close> with one
  argument more than they take: the call raises \<open>TypeError\<close> before the callee
  runs, so neither block reader is entered from here.
\<close>

definition readFractalHeap :: "globals \<Rightarrow> int \<Rightarrow> int \<Rightarrow> int \<Rightarrow> h5dataset \<Rightarrow> int result" where
  "readFractalHeap g msg_type heap_address obj_hdr_flags s =
     (let lsz = lengthSize (resourceObject s);
          osz = offsetSize (resourceObject s)
      in bindR (readField 4) (\<lambda>signature.
         bindR (readField 1) (\<lambda>version.
         bindR (readField 2) (\<lambda>heap_obj_id_len.
         bindR (readField 2) (\<lambda>io_filter_len.
         bindR (readField 1) (\<lambda>flags.
         bindR (readField 4) (\<lambda>max_size_mg_obj.
         bindR (readField lsz) (\<lambda>next_huge_obj_id.
         bindR (readField osz) (\<lambda>btree_addr_huge_obj.
         bindR (readField lsz) (\<lambda>free_space_mg_blks.
         bindR (readField osz) (\<lambda>addr_free_space_mg.
         bindR (readField lsz) (\<lambda>mg_space.
         bindR (readField lsz) (\<lambda>alloc_mg_space.
         bindR (readField lsz) (\<lambda>dblk_alloc_iter.
         bindR (readField lsz) (\<lambda>mg_objs.
         bindR (readField lsz) (\<lambda>huge_obj_size.
         bindR (readField lsz) (\<lambda>huge_objs.
         bindR (readField lsz) (\<lambda>tiny_obj_size.
         bindR (readField lsz) (\<lambda>tiny_objs.
         bindR (readField 2) (\<lambda>table_width.
         bindR (readField lsz) (\<lambda>starting_blk_size.
         bindR (readField lsz) (\<lambda>max_dblk_size.
         bindR (readField 2) (\<lambda>max_heap_size.
         bindR (readField 2) (\<lambda>start_num_rows.
         bindR (readField osz) (\<lambda>root_blk_addr.
         bindR (readField 2) (\<lambda>curr_num_rows.
         bindR (whenever (errorChecking g)
                  (if signature \<noteq> H5_FRHP_SIGNATURE_LE then
                     raise (FatalError ''invalid heap signature'')
                   else if version \<noteq> 0 then
                     raise (FatalError ''unsupported heap version'')
                   else ret ())) (\<lambda>_.
         bindR (whenever (io_filter_len > 0)
                  (bindR (readField lsz) (\<lambda>filter_root_dblk.
                   bindR (readField 4) (\<lambda>filter_mask.
                   raise (FatalError ''Filtering unsupported on fractal heap''))))) (\<lambda>_.
         bindR (skip 4) (\<lambda>_.
         if curr_num_rows = 0 then
           raise (TypeError ''readDirectBlock() takes 4 positional arguments but 5 were given'')
         else
           raise (TypeError ''readIndirectBlock() takes 4 positional arguments but 5 were given'')
         )))))))))))))))))))))))))))) s)"

definition linkinfoMsgHandler :: "globals \<Rightarrow> int \<Rightarrow> int \<Rightarrow> h5dataset \<Rightarrow> int result" where
  "linkinfoMsgHandler g msg_size obj_hdr_flags s =
     (let MAX_CREATE_PRESENT_BIT = 0x1;
          CREATE_ORDER_PRESENT_BIT = 0x2;
          starting_position = pos s;
          osz = offsetSize (resourceObject s)
      in bindR (readField 1) (\<lambda>version.
         bindR (readField 1) (\<lambda>flags.
         bindR (whenever (errorChecking g \<and> version \<noteq> 0)
                  (raise (FatalError ''unsupported link info version''))) (\<lambda>_.
         bindR (whenever (flags AND MAX_CREATE_PRESENT_BIT \<noteq> 0)
                  (bindR (readField 8) (\<lambda>max_create_index. ret ()))) (\<lambda>_.
         bindR (readField osz) (\<lambda>heap_address.
         bindR (readField osz) (\<lambda>name_index.
         bindR (whenever (flags AND CREATE_ORDER_PRESENT_BIT \<noteq> 0)
                  (bindR (readField osz) (\<lambda>create_order_index. ret ()))) (\<lambda>_.
         bindR (case INVALID_VALUE osz of
                  None \<Rightarrow> raise (KeyError ''INVALID_VALUE'')
                | Some invalid \<Rightarrow>
                    whenever (heap_address = invalid)
                      (bindR (readFractalHeap g LINK_MSG heap_address obj_hdr_flags) (\<lambda>_. ret ()))) (\<lambda>_.
         bytes_read_since starting_position)))))))) s)"

definition attributeinfoMsgHandler :: "globals \<Rightarrow> int \<Rightarrow> int \<Rightarrow> h5dataset \<Rightarrow> int result" where
  "attributeinfoMsgHandler g msg_size obj_hdr_flags s =
     (let MAX_CREATE_PRESENT_BIT = 0x01;
          CREATE_ORDER_PRESENT_BIT = 0x02;
          starting_position = pos s;
          osz = offsetSize (resourceObject s)
      in bindR (readField 1) (\<lambda>version.
         bindR (readField 1) (\<lambda>flags.
         bindR (whenever (errorChecking g \<and> version \<noteq> 0)
                  (raise (FatalError ''unsupported link info version''))) (\<lambda>_.
         bindR (whenever (flags AND MAX_CREATE_PRESENT_BIT \<noteq> 0)
                  (bindR (readField 2) (\<lambda>max_create_index. ret ()))) (\<lambda>_.
         bindR (readField osz) (\<lambda>heap_address.
         bindR (readField osz) (\<lambda>name_index.
         bindR (whenever (flags AND CREATE_ORDER_PRESENT_BIT \<noteq> 0)
                  (bindR (readField osz) (\<lambda>create_order_index. ret ()))) (\<lambda>_.
         bindR (case INVALID_VALUE osz of
                  None \<Rightarrow> raise (KeyError ''INVALID_VALUE'')
                | Some invalid \<Rightarrow>
                    whenever (heap_address = invalid)
                      (bindR (readFractalHeap g ATTRIBUTE_MSG heap_address obj_hdr_flags) (\<lambda>_. ret ()))) (\<lambda>_.
         bytes_read_since starting_position)))))))) s)"

subsection \<open>Classic groups: the symbol table\<close>

text \<open>
  \<open>readSymbolTable\<close> reads \<open>self.resourceObject.offsetsize\<close> for the first symbol;
  the resource has \<open>offsetSize\<close> only, so a node with a symbol raises
  \<open>AttributeError\<close> and only an empty node is ever read to its end. The two
  \<open>while True\<close> loops of \<open>symboltableMsgHandler\<close> follow addresses read from the
  file and need not end: they take fuel, and running out of it is \<open>OutOfFuel\<close>.
\<close>

definition readSymbolTable :: "globals \<Rightarrow> int \<Rightarrow> h5dataset \<Rightarrow> int result" where
  "readSymbolTable g heap_address s =
     (let starting_position = pos s
      in bindR (if errorChecking g then
                  bindR (readField 4) (\<lambda>signature.
                  bindR (readField 1) (\<lambda>version.
                  if signature \<noteq> H5_SNOD_SIGNATURE_LE then
                    raise (FatalError ''invalid symbol table signature'')
                  else if version \<noteq> 1 then
                    raise (FatalError ''incorrect version of symbole table'')
                  else skip 1))
                else skip 6) (\<lambda>_.
         bindR (readField 2) (\<lambda>num_symbols.
         if num_symbols > 0 then raise (AttributeError ''offsetsize'')
         else bytes_read_since starting_position)) s)"

definition group_btree_header :: "globals \<Rightarrow> h5dataset \<Rightarrow> unit result" where
  \<comment> \<open>\<open># read header info\<close> in the descent to the left-most node\<close>
  "group_btree_header g =
     (if errorChecking g then
        bindR (readField 4) (\<lambda>signature.
        bindR (readField 1) (\<lambda>node_type.
        if signature \<noteq> H5_TREE_SIGNATURE_LE then
          raise (FatalError ''invalid group b-tree signature'')
        else if node_type \<noteq> 0 then
          raise (FatalError ''only group b-trees supported'')
        else ret ()))
      else skip 5)"

primrec goto_leftmost :: "nat \<Rightarrow> globals \<Rightarrow> h5dataset \<Rightarrow> unit result" where
  \<comment> \<open>the first \<open>while True\<close> of \<open>symboltableMsgHandler\<close>\<close>
  "goto_leftmost 0 g = raise OutOfFuel"
| "goto_leftmost (Suc n) g =
     bindR (group_btree_header g) (\<lambda>_.
     bindR (readField 1) (\<lambda>node_level.
     if node_level = 0 then ret ()
     else
       (\<lambda>s. bindR (skip (2 + (2 * offsetSize (resourceObject s)) + lengthSize (resourceObject s))) (\<lambda>_.
             bindR (readField (offsetSize (resourceObject s))) (\<lambda>child.
             bindR (seek child) (\<lambda>_.
             goto_leftmost n g))) s)))"

primrec read_entries :: "globals \<Rightarrow> int \<Rightarrow> nat \<Rightarrow> h5dataset \<Rightarrow> unit result" where
  \<comment> \<open>\<open>for _ in range(entries_used)\<close>\<close>
  "read_entries g head_data_addr 0 = ret ()"
| "read_entries g head_data_addr (Suc k) =
     (\<lambda>s. bindR (readField (offsetSize (resourceObject s))) (\<lambda>symbol_table_addr.
           (\<lambda>s1. let current_node_pos = pos s1 in
              bindR (seek symbol_table_addr) (\<lambda>_.
              bindR (readSymbolTable g head_data_addr) (\<lambda>_.
              bindR (seek current_node_pos) (\<lambda>_.
              bindR (skip (lengthSize (resourceObject s))) (\<lambda>_.
              (\<lambda>s2. if datasetFound s2 then ret () s2
                     else read_entries g head_data_addr k s2))))) s1)) s)"

primrec traverse_leaves :: "nat \<Rightarrow> globals \<Rightarrow> int \<Rightarrow> h5dataset \<Rightarrow> unit result" where
  \<comment> \<open>the second \<open>while True\<close> of \<open>symboltableMsgHandler\<close>\<close>
  "traverse_leaves 0 g head_data_addr = raise OutOfFuel"
| "traverse_leaves (Suc n) g head_data_addr =
     (\<lambda>s. let osz = offsetSize (resourceObject s); lsz = lengthSize (resourceObject s) in
        bindR (readField 2) (\<lambda>entries_used.
        bindR (readField osz) (\<lambda>left_sibling.
        bindR (readField osz) (\<lambda>right_sibling.
        bindR (readField lsz) (\<lambda>key0.
        bindR (read_entries g head_data_addr (nat entries_used)) (\<lambda>_.
        (\<lambda>s1. case INVALID_VALUE osz of
                 None \<Rightarrow> raise (KeyError ''INVALID_VALUE'') s1
               | Some invalid \<Rightarrow>
                   if right_sibling = invalid \<or> datasetFound s1 then ret () s1
                   else
                     bindR (seek right_sibling) (\<lambda>_.
                     bindR (if errorChecking g then
                              bindR (readField 4) (\<lambda>signature.
                              bindR (readField 1) (\<lambda>node_type.
                              bindR (readField 1) (\<lambda>node_level.
                              if signature \<noteq> H5_TREE_SIGNATURE_LE then
                                raise (FatalError ''invalid group b-tree signature'')
                              else if node_type \<noteq> 0 then
                                raise (FatalError ''only group b-trees supported'')
                              else if node_level \<noteq> 0 then
                                raise (FatalError ''traversed to non-leaf node'')
                              else ret ())))
                            else skip 6) (\<lambda>_.
                     traverse_leaves n g head_data_addr)) s1)))))) s)"

definition symboltableMsgHandler :: "nat \<Rightarrow> globals \<Rightarrow> int \<Rightarrow> int \<Rightarrow> h5dataset \<Rightarrow> int result" where
  "symboltableMsgHandler fuel g msg_size obj_hdr_flags s =
     (let osz = offsetSize (resourceObject s); lsz = lengthSize (resourceObject s)
      in bindR (readField osz) (\<lambda>btree_addr.
         bindR (readField osz) (\<lambda>heap_addr.
         (\<lambda>s1. let return_position = pos s1 in
            bindR (seek heap_addr) (\<lambda>_.
            bindR (if errorChecking g then
                     bindR (readField 4) (\<lambda>signature.
                     bindR (readField 1) (\<lambda>version.
                     if signature \<noteq> H5_HEAP_SIGNATURE_LE then
                       raise (FatalError ''invalid heap signature'')
                     else if version \<noteq> 0 then
                       raise (FatalError ''unsupported version of heap'')
                     else skip 19))
                   else skip 24) (\<lambda>_.
            bindR (readField osz) (\<lambda>head_data_addr.
            bindR (seek btree_addr) (\<lambda>_.
            bindR (goto_leftmost fuel g) (\<lambda>_.
            bindR (traverse_leaves fuel g head_data_addr) (\<lambda>_.
            let bytes_read = osz + lsz in
            bindR (seek (return_position + bytes_read)) (\<lambda>_.
            ret bytes_read))))))) s1))) s)"

subsection \<open>Walking object headers\<close>

text \<open>
  \<open>self.pos += f(...)\<close> loads \<open>self.pos\<close> before it calls \<open>f\<close>: the position
  after the statement is the position before the call plus the value returned,
  whatever the call did to \<open>self.pos\<close>.
\<close>

definition pos_plus_eq :: "(h5dataset \<Rightarrow> int result) \<Rightarrow> h5dataset \<Rightarrow> unit result" where
  "pos_plus_eq m s =
     (case m s of
        Inl x \<Rightarrow> Inl x
      | Inr (v, s') \<Rightarrow> Inr ((), s'\<lparr>pos := pos s + v\<rparr>))"

definition catch_FatalError :: "int \<Rightarrow> int result \<Rightarrow> int result" where
  \<comment> \<open>\<open>try: return handler(...)  except FatalError: return msg_size\<close>\<close>
  "catch_FatalError msg_size r =
     (case r of
        Inl (FatalError m, s') \<Rightarrow> Inr (msg_size, s')
      | _ \<Rightarrow> r)"

text \<open>
  The methods below call one another, and every cycle of calls goes through
  \<open>readMessage\<close>: they take \<open>self.readMessage\<close> as the parameter \<open>rm\<close>, and
  \<open>readMessage\<close> itself is defined last, by recursion on fuel. Each call of
  \<open>readMessage\<close> and each turn of a \<open>while\<close> loop takes one unit of fuel, and a run
  that uses it up ends in \<open>OutOfFuel\<close> (a header can link to itself; the source then
  recurses until Python gives up). \<open>headercontMsgHandler\<close> calls
  \<open>self.readMessages\<close> for a header in the new format; no such method exists.
\<close>

type_synonym read_message = "int \<Rightarrow> int \<Rightarrow> int \<Rightarrow> h5dataset \<Rightarrow> int result"

primrec readMessagesV0_loop :: "nat \<Rightarrow> globals \<Rightarrow> read_message \<Rightarrow> int \<Rightarrow> int \<Rightarrow> h5dataset \<Rightarrow> unit result" where
  \<comment> \<open>\<open>while self.pos < end_of_hdr\<close> of \<open>readMessagesV0\<close>\<close>
  "readMessagesV0_loop 0 g rm end_of_hdr obj_hdr_flags = raise OutOfFuel"
| "readMessagesV0_loop (Suc n) g rm end_of_hdr obj_hdr_flags =
     (\<lambda>s. let ATTR_CREATION_TRACK_BIT = 0x4
      in if pos s < end_of_hdr then
           bindR (readField 1) (\<lambda>msg_type.
           bindR (readField 2) (\<lambda>msg_size.
           bindR (readField 1) (\<lambda>msg_flags.
           bindR (whenever (obj_hdr_flags AND ATTR_CREATION_TRACK_BIT \<noteq> 0)
                    (bindR (readField 2) (\<lambda>msg_order. ret ()))) (\<lambda>_.
           bindR (rm msg_type msg_size obj_hdr_flags) (\<lambda>bytes_read.
           bindR (whenever (errorChecking g \<and> bytes_read \<noteq> msg_size)
                    (raise (FatalError ''header message different size than specified''))) (\<lambda>_.
           (\<lambda>s1. if datasetFound s1 then seek end_of_hdr s1
                  else bindR (skip bytes_read) (\<lambda>_.
                       readMessagesV0_loop n g rm end_of_hdr obj_hdr_flags) s1))))))) s
         else ret () s)"

definition readMessagesV0 :: "nat \<Rightarrow> globals \<Rightarrow> read_message \<Rightarrow> int \<Rightarrow> int \<Rightarrow> h5dataset \<Rightarrow> int result" where
  "readMessagesV0 fuel g rm end_of_hdr obj_hdr_flags s =
     (let starting_position = pos s
      in bindR (readMessagesV0_loop fuel g rm end_of_hdr obj_hdr_flags) (\<lambda>_.
         bindR (\<lambda>s1. whenever (errorChecking g \<and> pos s1 \<noteq> end_of_hdr)
                        (raise (FatalError ''did not read correct number of bytes'')) s1) (\<lambda>_.
         bytes_read_since starting_position)) s)"

definition readObjHdrV0 :: "nat \<Rightarrow> globals \<Rightarrow> read_message \<Rightarrow> h5dataset \<Rightarrow> int result" where
  "readObjHdrV0 fuel g rm s =
     (let starting_position = pos s;
          FILE_STATS_BIT = 0x20;
          STORE_CHANGE_PHASE_BIT = 0x10;
          SIZE_OF_CHUNK_0_MASK = 0x3
      in bindR (if errorChecking g then
                  bindR (readField 4) (\<lambda>signature.
                  bindR (readField 1) (\<lambda>version.
                  if signature \<noteq> H5_OHDR_SIGNATURE_LE then
                    raise (FatalError ''invalid version 0 object header signature'')
                  else if version \<noteq> 2 then
                    raise (FatalError ''unsupported header version'')
                  else ret ()))
                else skip 5) (\<lambda>_.
         bindR (readField 1) (\<lambda>obj_hdr_flags.
         bindR (whenever (obj_hdr_flags AND FILE_STATS_BIT \<noteq> 0)
                  (if verbose g then
                     bindR (readField 4) (\<lambda>access_time.
                     bindR (readField 4) (\<lambda>modification_time.
                     bindR (readField 4) (\<lambda>change_time.
                     bindR (readField 4) (\<lambda>birth_time. ret ()))))
                   else skip 16)) (\<lambda>_.
         bindR (whenever (obj_hdr_flags AND STORE_CHANGE_PHASE_BIT \<noteq> 0)
                  (if verbose g then
                     bindR (readField 2) (\<lambda>max_compact_attr.
                     bindR (readField 2) (\<lambda>max_dense_attr. ret ()))
                   else skip 4)) (\<lambda>_.
         bindR (readField (push_bit (nat (obj_hdr_flags AND SIZE_OF_CHUNK_0_MASK)) 1)) (\<lambda>size_of_chunk0.
         (\<lambda>s1. let end_of_hdr = pos s1 + size_of_chunk0 in
            bindR (pos_plus_eq (readMessagesV0 fuel g rm end_of_hdr obj_hdr_flags)) (\<lambda>_.
            bindR (skip 4) (\<lambda>_.
            bytes_read_since starting_position)) s1)))))) s)"

primrec readMessagesV1_loop :: "nat \<Rightarrow> globals \<Rightarrow> read_message \<Rightarrow> int \<Rightarrow> int \<Rightarrow> h5dataset \<Rightarrow> unit result" where
  \<comment> \<open>\<open>while self.pos < (end_of_hdr - SIZE_OF_V1_PREFIX)\<close> of \<open>readMessagesV1\<close>\<close>
  "readMessagesV1_loop 0 g rm end_of_hdr obj_hdr_flags = raise OutOfFuel"
| "readMessagesV1_loop (Suc n) g rm end_of_hdr obj_hdr_flags =
     (\<lambda>s. let SIZE_OF_V1_PREFIX = 8
      in if pos s < end_of_hdr - SIZE_OF_V1_PREFIX then
           bindR (readField 2) (\<lambda>msg_type.
           bindR (readField 2) (\<lambda>msg_size.
           bindR (readField 1) (\<lambda>msg_flags.
           bindR (if errorChecking g then
                    bindR (readField 1) (\<lambda>reserved1.
                    bindR (readField 2) (\<lambda>reserved2.
                    whenever (reserved1 \<noteq> 0 \<and> reserved2 \<noteq> 0)
                      (raise (FatalError ''invalid reserved fields''))))
                  else skip 3) (\<lambda>_.
           bindR (rm msg_type msg_size obj_hdr_flags) (\<lambda>bytes_read0.
           let bytes_read = bytes_read0 + align8 bytes_read0 in
           bindR (whenever (errorChecking g \<and> bytes_read \<noteq> msg_size)
                    (raise (FatalError ''header message different size than specified''))) (\<lambda>_.
           (\<lambda>s1. if datasetFound s1 then seek end_of_hdr s1
                  else bindR (skip bytes_read) (\<lambda>_.
                       readMessagesV1_loop n g rm end_of_hdr obj_hdr_flags) s1))))))) s
         else ret () s)"

definition readMessagesV1 :: "nat \<Rightarrow> globals \<Rightarrow> read_message \<Rightarrow> int \<Rightarrow> int \<Rightarrow> h5dataset \<Rightarrow> int result" where
  "readMessagesV1 fuel g rm end_of_hdr obj_hdr_flags s =
     (let starting_position = pos s
      in bindR (readMessagesV1_loop fuel g rm end_of_hdr obj_hdr_flags) (\<lambda>_.
         bindR (\<lambda>s1. whenever (pos s1 < end_of_hdr) (seek end_of_hdr) s1) (\<lambda>_.
         bindR (\<lambda>s1. whenever (errorChecking g \<and> pos s1 \<noteq> end_of_hdr)
                        (raise (FatalError ''did not read correct number of bytes'')) s1) (\<lambda>_.
         bytes_read_since starting_position))) s)"

definition readObjHdrV1 :: "nat \<Rightarrow> globals \<Rightarrow> read_message \<Rightarrow> h5dataset \<Rightarrow> int result" where
  "readObjHdrV1 fuel g rm s =
     (let starting_position = pos s
      in bindR (skip 1) (\<lambda>_.
         bindR (if verbose g then
                  bindR (readField 2) (\<lambda>num_hdr_msgs.
                  bindR (readField 4) (\<lambda>obj_ref_count. ret ()))
                else skip 6) (\<lambda>_.
         bindR (readField (lengthSize (resourceObject s))) (\<lambda>obj_hdr_size.
         (\<lambda>s1. let end_of_hdr = pos s1 + obj_hdr_size in
            bindR (pos_plus_eq (readMessagesV1 fuel g rm end_of_hdr CUSTOM_V1_FLAG)) (\<lambda>_.
            bytes_read_since starting_position) s1)))) s)"

definition readObjHdr :: "nat \<Rightarrow> globals \<Rightarrow> read_message \<Rightarrow> h5dataset \<Rightarrow> unit result" where
  "readObjHdr fuel g rm =
     bindR (readField 1) (\<lambda>obj_hdr_version.
       if obj_hdr_version = 0 then bindR (readObjHdrV0 fuel g rm) (\<lambda>_. ret ())
       else if obj_hdr_version = 1 then bindR (readObjHdrV1 fuel g rm) (\<lambda>_. ret ())
       else raise (FatalError ''unsupported object header version''))"

definition linkMsgHandler :: "nat \<Rightarrow> globals \<Rightarrow> read_message \<Rightarrow> int \<Rightarrow> int \<Rightarrow> h5dataset \<Rightarrow> int result" where
  "linkMsgHandler fuel g rm msg_size obj_hdr_flags s =
     (let SIZE_OF_LEN_OF_NAME_MASK = 0x03;
          CREATE_ORDER_PRESENT_BIT = 0x04;
          LINK_TYPE_PRESENT_BIT = 0x08;
          CHAR_SET_PRESENT_BIT = 0x10;
          HARD_LINK = 0;
          SOFT_LINK = 1;
          EXTERNAL_LINK = 64;
          starting_position = pos s;
          osz = offsetSize (resourceObject s)
      in bindR (readField 1) (\<lambda>version.
         bindR (readField 1) (\<lambda>flags.
         bindR (whenever (errorChecking g \<and> version \<noteq> 1)
                  (raise (FatalError ''unsupported link message version''))) (\<lambda>_.
         bindR (if flags AND LINK_TYPE_PRESENT_BIT \<noteq> 0 then readField 1 else ret 0) (\<lambda>link_type.
         bindR (whenever (flags AND CREATE_ORDER_PRESENT_BIT \<noteq> 0)
                  (bindR (readField 8) (\<lambda>create_order. ret ()))) (\<lambda>_.
         bindR (whenever (flags AND CHAR_SET_PRESENT_BIT \<noteq> 0)
                  (bindR (readField 1) (\<lambda>char_set. ret ()))) (\<lambda>_.
         let link_name_len_of_len = push_bit (nat (flags AND SIZE_OF_LEN_OF_NAME_MASK)) 1 in
         bindR (whenever (errorChecking g \<and> link_name_len_of_len > 8)
                  (raise (FatalError ''invalid link name length of length''))) (\<lambda>_.
         bindR (readField link_name_len_of_len) (\<lambda>link_name_len.
         bindR (readArray link_name_len) (\<lambda>raw.
         bindR (decode raw) (\<lambda>link_name.
         bindR (\<lambda>s1. case getitem (datasetPath s1) (datasetLevel s1) of
                        Inl e \<Rightarrow> Inl (e, s1)
                      | Inr component \<Rightarrow>
                          if link_name = component
                          then Inr (True, s1\<lparr>datasetLevel := datasetLevel s1 + 1\<rparr>)
                          else Inr (False, s1)) (\<lambda>follow_link.
         bindR (if link_type = HARD_LINK then
                  bindR (readField osz) (\<lambda>obj_hdr_addr.
                  whenever follow_link
                    (\<lambda>s1. let return_position = pos s1 in
                       bindR (seek obj_hdr_addr) (\<lambda>_.
                       bindR (readObjHdr fuel g rm) (\<lambda>_.
                       seek return_position)) s1))
                else if link_type = SOFT_LINK then
                  bindR (readField 2) (\<lambda>soft_link_len.
                  bindR (readArray soft_link_len) (\<lambda>raw.
                  bindR (decode raw) (\<lambda>soft_link.
                  whenever (errorChecking g \<and> follow_link)
                    (raise (FatalError ''unsupported soft link encountered'')))))
                else if link_type = EXTERNAL_LINK then
                  bindR (readField 2) (\<lambda>ext_link_len.
                  bindR (readArray ext_link_len) (\<lambda>raw.
                  bindR (decode raw) (\<lambda>ext_link.
                  whenever (errorChecking g \<and> follow_link)
                    (raise (FatalError ''unsupported external link encountered'')))))
                else if errorChecking g then
                  raise (FatalError ''unsupported link type'')
                else ret ()) (\<lambda>_.
         bytes_read_since starting_position)))))))))))) s)"

definition headercontMsgHandler :: "nat \<Rightarrow> globals \<Rightarrow> read_message \<Rightarrow> int \<Rightarrow> int \<Rightarrow> h5dataset \<Rightarrow> int result" where
  "headercontMsgHandler fuel g rm msg_size obj_hdr_flags s =
     (let osz = offsetSize (resourceObject s); lsz = lengthSize (resourceObject s)
      in bindR (readField osz) (\<lambda>hc_offset.
         bindR (readField lsz) (\<lambda>hc_length.
         (\<lambda>s1. let return_position = pos s1 in
            bindR (seek hc_offset) (\<lambda>_.
            bindR (if obj_hdr_flags AND CUSTOM_V1_FLAG \<noteq> 0 then
                     (let end_of_chdr = hc_offset + hc_length
                      in pos_plus_eq (readMessagesV1 fuel g rm end_of_chdr obj_hdr_flags))
                   else
                     bindR (if errorChecking g then
                              bindR (readField 4) (\<lambda>signature.
                              whenever (signature \<noteq> H5_OCHK_SIGNATURE_LE)
                                (raise (FatalError ''invalid header continuation signature'')))
                            else skip 4) (\<lambda>_.
                     raise (AttributeError ''readMessages''))) (\<lambda>_.
            let bytes_read = osz + lsz in
            bindR (seek (return_position + bytes_read)) (\<lambda>_.
            ret bytes_read))) s1))) s)"

definition msg_handler_table ::
  "nat \<Rightarrow> globals \<Rightarrow> read_message \<Rightarrow> int \<rightharpoonup> (int \<Rightarrow> int \<Rightarrow> h5dataset \<Rightarrow> int result)" where
  \<comment> \<open>the dictionary of \<open>readMessage\<close>: the handler of each message type\<close>
  "msg_handler_table fuel g rm =
     [DATASPACE_MSG \<mapsto> dataspaceMsgHandler g,
      LINK_INFO_MSG \<mapsto> linkinfoMsgHandler g,
      DATATYPE_MSG \<mapsto> datatypeMsgHandler g,
      FILL_VALUE_MSG \<mapsto> fillvalueMsgHandler g,
      LINK_MSG \<mapsto> linkMsgHandler fuel g rm,
      DATA_LAYOUT_MSG \<mapsto> datalayoutMsgHandler g,
      FILTER_MSG \<mapsto> filterMsgHandler g,
      ATTRIBUTE_MSG \<mapsto> attributeMsgHandler g,
      HEADER_CONT_MSG \<mapsto> headercontMsgHandler fuel g rm,
      SYMBOL_TABLE_MSG \<mapsto> symboltableMsgHandler fuel g,
      ATTRIBUTE_INFO_MSG \<mapsto> attributeinfoMsgHandler g]"

primrec readMessage :: "nat \<Rightarrow> globals \<Rightarrow> int \<Rightarrow> int \<Rightarrow> int \<Rightarrow> h5dataset \<Rightarrow> int result" where
  "readMessage 0 g = (\<lambda>msg_type msg_size obj_hdr_flags. raise OutOfFuel)"
| "readMessage (Suc n) g =
     (\<lambda>msg_type msg_size obj_hdr_flags s.
        case msg_handler_table n g (readMessage n g) msg_type of
          None \<Rightarrow> Inl (KeyError ''msg_handler_table'', s)
        | Some handler \<Rightarrow> catch_FatalError msg_size (handler msg_size obj_hdr_flags s))"

subsection \<open>\<open>readDataset\<close>\<close>

datatype nptype =
  Int8 | Int16 | Int32 | Int64 | UInt8 | UInt16 | UInt32 | UInt64 | Single | Double | Byte

definition TO_DATATYPE :: "int option \<Rightarrow> bool \<Rightarrow> int \<Rightarrow> nptype option" where
  \<comment> \<open>\<open>self.TO_DATATYPE[self.type][self.signedval][self.typeSize]\<close>; \<open>None\<close> where a key is missing\<close>
  "TO_DATATYPE ty is_signed sz =
     (if ty = Some FIXED_POINT_TYPE then
        (if is_signed then [1 \<mapsto> Int8, 2 \<mapsto> Int16, 4 \<mapsto> Int32, 8 \<mapsto> Int64] sz
         else [1 \<mapsto> UInt8, 2 \<mapsto> UInt16, 4 \<mapsto> UInt32, 8 \<mapsto> UInt64] sz)
      else if ty = Some FLOATING_POINT_TYPE then
        (if is_signed then [4 \<mapsto> Single, 8 \<mapsto> Double] sz else None)
      else if ty = Some STRING_TYPE then
        (if is_signed then [1 \<mapsto> Byte] sz else None)
      else None)"

definition lift :: "error + 'a \<Rightarrow> h5dataset \<Rightarrow> 'a result" where
  \<comment> \<open>a computation that does not touch the state\<close>
  "lift r s = (case r of Inl e \<Rightarrow> Inl (e, s) | Inr a \<Rightarrow> Inr (a, s))"

text \<open>
  \<open>buffer\<close> is assigned only for a chunked layout of a read that wants data; there the
  fill loop reads \<open>self.fill\<close>, an attribute that is never set. After the metadata,
  a chunked read calls \<open>readBTreeV1\<close> with one argument more than it takes, and a
  compact or contiguous one would call \<open>self.ioRequest\<close>, which \<open>H5Dataset\<close> does
  not have. The function has no \<open>return\<close>: where it ends, it returns \<open>None\<close>.
  The allocation \<open>numpy.empty(buffer_size)\<close> is taken to succeed: a \<open>buffer_size\<close>
  too large for numpy (it raises \<open>ValueError\<close> or \<open>MemoryError\<close>) has no branch here.
\<close>

definition readDataset :: "nat \<Rightarrow> globals \<Rightarrow> h5dataset \<Rightarrow> unit result" where
  "readDataset fuel g =
     bindR (readObjHdr fuel g (readMessage fuel g)) (\<lambda>_.
     bindR (\<lambda>s. if typeSize s \<le> 0 then
                    raise (FatalError ''missing data type information'') s
                  else (case ndims s of
                     None \<Rightarrow> raise (FatalError ''missing data dimension information'') s
                   | Some nd \<Rightarrow>
                       (case INVALID_VALUE (offsetSize (resourceObject s)) of
                          None \<Rightarrow> raise (KeyError ''INVALID_VALUE'') s
                        | Some invalid \<Rightarrow>
                            if address s = invalid then raise (FatalError ''invalid data address'') s
                            else ret nd s))) (\<lambda>nd.
     bindR (\<lambda>s. lift (mul_items (dimensions s) [1..<nat nd] (typeSize s)) s) (\<lambda>row_size.
     bindR (\<lambda>s. if nd > 0 then
                    bindR (lift (getitem (dimensions s) 0)) (\<lambda>d0. ret (if d0 \<noteq> 0 then d0 else 1)) s
                  else ret 1 s) (\<lambda>first_dimension.
     bindR (modify (\<lambda>s. s\<lparr>datasetNumRows :=
                (if datasetNumRows s = ALL_ROWS \<and> first_dimension \<noteq> 0 then first_dimension
                 else datasetNumRows s)\<rparr>)) (\<lambda>_.
     bindR (\<lambda>s. whenever (datasetStartRow s + datasetNumRows s > first_dimension)
                    (raise (FatalError ''read exceeds number of rows'')) s) (\<lambda>_.
     (\<lambda>s. let buffer_size = row_size * datasetNumRows s in
        bindR (if \<not> metaOnly s \<and> buffer_size > 0 then
                 (if layout s = Some CHUNKED_LAYOUT then
                    (if fillsize s > 0 then raise (AttributeError ''fill'') else ret True)
                  else ret False)
               else ret False) (\<lambda>buffer_bound.
        bindR (whenever (\<not> buffer_bound) (raise (UnboundLocalError ''buffer''))) (\<lambda>_.
        bindR (\<lambda>s. if nd \<ge> 2 then bindR (lift (getitem (dimensions s) 1)) (\<lambda>numcols. ret ()) s
                     else ret () s) (\<lambda>_.
        bindR (\<lambda>s. case TO_DATATYPE (type s) (signedval s) (typeSize s) of
                       None \<Rightarrow> raise (FatalError ''unable to set data type'') s
                     | Some datatype \<Rightarrow> ret () s) (\<lambda>_.
        (\<lambda>s. let buffer_offset = row_size * datasetStartRow s in
           bindR (whenever (errorChecking g)
                    (if size' s \<noteq> 0 \<and> size' s < buffer_offset + buffer_size then
                       raise (FatalError ''read exceeds available data'')
                     else if (filter' s DEFLATE_FILTER = Some True \<or> filter' s SHUFFLE_FILTER = Some True) \<and>
                             (layout s = Some COMPACT_LAYOUT \<or> layout s = Some CONTIGUOUS_LAYOUT) then
                       raise (FatalError ''filters unsupported on non-chunked layouts'')
                     else ret ())) (\<lambda>_.
           if \<not> metaOnly s \<and> buffer_size > 0 then
             (if layout s = Some COMPACT_LAYOUT \<or> layout s = Some CONTIGUOUS_LAYOUT then
                raise (AttributeError ''ioRequest'')
              else if layout s = Some CHUNKED_LAYOUT then
                bindR (whenever (errorChecking g)
                         (if elementSize s \<noteq> typeSize s then
                            raise (FatalError ''chunk element size does not match data element size'')
                          else if chunkElements s \<le> 0 then
                            raise (FatalError ''invalid number of chunk elements'')
                          else ret ())) (\<lambda>_.
                bindR (modify (\<lambda>s. s\<lparr>dataChunkBufferSize := Some (chunkElements s * typeSize s)\<rparr>)) (\<lambda>_.
                raise (TypeError ''readBTreeV1() takes 3 positional arguments but 4 were given'')))
              else if errorChecking g then
                raise (FatalError ''invalid data layout'')
              else ret ())
           else ret ()) s))))) s)))))))"

subsection \<open>Concrete resources\<close>

text \<open>
  A driver over the bytes of a file, as a local file gives them: a read past the end
  is short. \<open>resource_of bs\<close> is the resource as \<open>readSuperblock\<close> leaves it
  for a file with 8-byte offsets and lengths, base address 0 and the root group at 0.
\<close>

definition bytes_driver :: "byte list \<Rightarrow> int \<Rightarrow> int \<Rightarrow> byte list" where
  "bytes_driver bs off len = take (nat len) (drop (nat off) bs)"

definition resource_of :: "byte list \<Rightarrow> h5coro" where
  "resource_of bs = \<lparr>driver = bytes_driver bs, driver_reads = [], cache = Map.empty,
     offsetSize = 8, lengthSize = 8, baseAddress = 0, rootAddress = 0\<rparr>"

definition source_globals :: globals where
  \<comment> \<open>the flags as the module sets them\<close>
  "source_globals = \<lparr>errorChecking = True, verbose = True\<rparr>"

subsection \<open>What a run shows\<close>

definition outcome :: "'a result \<Rightarrow> error + 'a" where
  \<comment> \<open>the value returned or the exception raised\<close>
  "outcome r = (case r of Inl (e, s) \<Rightarrow> Inl e | Inr (v, s) \<Rightarrow> Inr v)"

definition final :: "'a result \<Rightarrow> h5dataset" where
  \<comment> \<open>the state the run ends in\<close>
  "final r = (case r of Inl (e, s) \<Rightarrow> s | Inr (v, s) \<Rightarrow> s)"

definition unchecked_globals :: globals where
  \<comment> \<open>the module with \<open>errorChecking\<close> switched off\<close>
  "unchecked_globals = \<lparr>errorChecking = False, verbose = True\<rparr>"

subsection \<open>Files for concrete runs\<close>

text \<open>
  One message in the framing of the new header format: type \<open>DATATYPE_MSG\<close>, size 12,
  flags 0, then the 12 bytes of a version-1 fixed-point datatype of 4 signed bytes.
\<close>

definition datatype_message_v0 :: "byte list" where
  "datatype_message_v0 =
     [3, 12, 0, 0,  0x10, 0x08, 0, 0,  4, 0, 0, 0,  0, 0, 32, 0] @ replicate 16 0"

text \<open>
  The body of a link-info (or attribute-info) message, version 0 and flags 0: a heap
  address, a name-index address; 142 bytes follow, the size of a fractal heap header.
  In the first the heap address is the null sentinel, in the second it is 256.
\<close>

definition info_null_heap :: "byte list" where
  "info_null_heap = [0, 0] @ replicate 8 0xFF @ replicate 8 0 @ replicate 142 0"

definition info_heap_at_256 :: "byte list" where
  "info_heap_at_256 = [0, 0] @ [0, 1, 0, 0, 0, 0, 0, 0] @ replicate 8 0 @ replicate 142 0"

text \<open>The body of a version-1 dataspace message of rank 1 with dimension 5.\<close>

definition dataspace_message :: "byte list" where
  "dataspace_message = [1, 1, 0, 0, 0, 0, 0, 0,  5, 0, 0, 0, 0, 0, 0, 0]"

text \<open>The same dataspace message in the framing of the new header format (size 16).\<close>

definition dataspace_message_v0 :: "byte list" where
  "dataspace_message_v0 = [1, 16, 0, 0] @ dataspace_message @ replicate 16 0"




text \<open>
  A version-1 object header at 0 with one message, a hard link named \<open>a\<close> to the
  object header at 64; that header holds one datatype message (4 signed bytes).
\<close>

definition link_file :: "byte list" where
  "link_file =
    [1, 0, 1, 0, 1, 0, 0, 0,   36, 0, 0, 0, 0, 0, 0, 0,
     6, 0, 16, 0, 0, 0, 0, 0,  1, 0, 1, 0x61, 64, 0, 0, 0,
     0, 0, 0, 0, 0, 0, 0, 0,   0, 0, 0, 0, 0, 0, 0, 0,
     0, 0, 0, 0, 0, 0, 0, 0,   0, 0, 0, 0, 0, 0, 0, 0,
     1, 0, 1, 0, 1, 0, 0, 0,   36, 0, 0, 0, 0, 0, 0, 0,
     3, 0, 16, 0, 0, 0, 0, 0,  0x10, 0x08, 0, 0, 4, 0, 0, 0,
     0, 0, 32, 0, 0, 0, 0, 0,  0, 0, 0, 0, 0, 0, 0, 0,
     0, 0, 0, 0, 0, 0, 0, 0,   0, 0, 0, 0, 0, 0, 0, 0]"

text \<open>
  A version-1 object header with four messages: a datatype (4 signed bytes), a
  dataspace (rank 1, 10 rows), a fill value (4 bytes, \<open>0xDEADBEEF\<close>) and a chunked
  layout (chunks of 5 elements, B-tree at 512). After each message body comes a gap
  as long as the body, which is where \<open>readMessagesV1\<close> looks for the next message.
\<close>

definition chunked_fill_file :: "byte list" where
  "chunked_fill_file =
     [1, 0, 4, 0, 1, 0, 0, 0,   163, 0, 0, 0, 0, 0, 0, 0] @
     [3, 0, 16, 0, 0, 0, 0, 0,  0x10, 0x08, 0, 0, 4, 0, 0, 0, 0, 0, 32, 0] @ replicate 16 0 @
     [1, 0, 16, 0, 0, 0, 0, 0,  1, 1, 0, 0, 0, 0, 0, 0, 10, 0, 0, 0, 0, 0, 0, 0] @ replicate 16 0 @
     [5, 0, 16, 0, 0, 0, 0, 0,  2, 1, 1, 1, 4, 0, 0, 0, 0xEF, 0xBE, 0xAD, 0xDE] @ replicate 16 0 @
     [8, 0, 24, 0, 0, 0, 0, 0,  3, 2, 2, 0, 2, 0, 0, 0, 0, 0, 0, 5, 0, 0, 0, 4, 0, 0, 0] @ replicate 24 0 @
     replicate 16 0"


section \<open>Verified properties\<close>

subsection \<open>C1: how far a message moves the cursor\<close>

text \<open>
  C1. The claim says that a message whose handler returns without setting \<open>found\<close>
  leaves the cursor \<open>msg_size\<close> bytes past the start of its body. The code does not:
  the handler has already moved \<open>self.pos\<close> over the bytes it read, and
  \<open>readMessagesV0\<close> then adds the returned count again. For a well-formed datatype
  message of 12 bytes at offset 0 (prefix of 4 bytes), \<open>readMessage\<close> returns 12 with
  the cursor at \<open>4 + 12\<close>; the loop then leaves it at \<open>4 + 12 + 12\<close>, so that with
  error checking off \<open>readMessagesV0\<close> reports 28 bytes for a header of 16, and with
  error checking on it raises \<open>did not read correct number of bytes\<close>. The same
  happens to a dataspace message of 16 bytes (read with error checking off, since the
  dataspace handler raises with it on): 36 bytes are counted for a header of 20.
\<close>

theorem readMessagesV0_counts_handler_bytes_twice:
  "outcome (readMessage 3 source_globals DATATYPE_MSG 12 0
      ((init (resource_of datatype_message_v0) ''x'')\<lparr>pos := 4\<rparr>)) = Inr 12
   \<and> pos (final (readMessage 3 source_globals DATATYPE_MSG 12 0
      ((init (resource_of datatype_message_v0) ''x'')\<lparr>pos := 4\<rparr>))) = 4 + 12
   \<and> outcome (readMessagesV0 3 unchecked_globals (readMessage 3 unchecked_globals) 16 0
      (init (resource_of datatype_message_v0) ''x'')) = Inr 28
   \<and> pos (final (readMessagesV0 3 unchecked_globals (readMessage 3 unchecked_globals) 16 0
      (init (resource_of datatype_message_v0) ''x''))) = 4 + 12 + 12
   \<and> datasetFound (final (readMessagesV0 3 unchecked_globals (readMessage 3 unchecked_globals) 16 0
      (init (resource_of datatype_message_v0) ''x''))) = False
   \<and> outcome (readMessagesV0 3 source_globals (readMessage 3 source_globals) 16 0
      (init (resource_of datatype_message_v0) ''x''))
       = Inl (FatalError ''did not read correct number of bytes'')
   \<and> outcome (readMessagesV0 3 unchecked_globals (readMessage 3 unchecked_globals) 20 0
      (init (resource_of dataspace_message_v0) ''x'')) = Inr 36
   \<and> pos (final (readMessagesV0 3 unchecked_globals (readMessage 3 unchecked_globals) 20 0
      (init (resource_of dataspace_message_v0) ''x''))) = 4 + 16 + 16"
  by code_simp

subsection \<open>C2: when the info handlers read the fractal heap\<close>

text \<open>
  C2. The claim says that the link-info and attribute-info handlers read the fractal
  heap exactly when the heap address is not the null sentinel. The code tests
  \<open>heap_address == INVALID_VALUE[...]\<close>: with the sentinel as heap address both
  handlers go on to read the 142 bytes of a heap header (and fail on its signature);
  with heap address 256 both return after the 18 bytes of the message and no byte at
  or after 256 is read from the driver.
\<close>

theorem info_handlers_descend_on_null_heap_only:
  "outcome (linkinfoMsgHandler source_globals 18 0 (init (resource_of info_null_heap) ''x''))
       = Inl (FatalError ''invalid heap signature'')
   \<and> pos (final (linkinfoMsgHandler source_globals 18 0 (init (resource_of info_null_heap) ''x''))) = 18 + 142
   \<and> outcome (linkinfoMsgHandler source_globals 18 0 (init (resource_of info_heap_at_256) ''x'')) = Inr 18
   \<and> driver_reads (resourceObject (final
        (linkinfoMsgHandler source_globals 18 0 (init (resource_of info_heap_at_256) ''x''))))
       = [(0, 16), (16, 16)]
   \<and> outcome (attributeinfoMsgHandler source_globals 18 0 (init (resource_of info_null_heap) ''x''))
       = Inl (FatalError ''invalid heap signature'')
   \<and> pos (final (attributeinfoMsgHandler source_globals 18 0 (init (resource_of info_null_heap) ''x''))) = 18 + 142
   \<and> outcome (attributeinfoMsgHandler source_globals 18 0 (init (resource_of info_heap_at_256) ''x'')) = Inr 18
   \<and> driver_reads (resourceObject (final
        (attributeinfoMsgHandler source_globals 18 0 (init (resource_of info_heap_at_256) ''x''))))
       = [(0, 16), (16, 16)]"
  by code_simp

subsection \<open>C3: the version check of the dataspace handler\<close>

lemma readField_1_error: "readField 1 s = Inl (e, s') \<Longrightarrow> e = StructError"
  by (auto simp: readField_def Let_def split: prod.splits if_splits)

lemma not_1_or_not_2: "((v::int) \<noteq> 1 \<or> v \<noteq> 2) = True"
  by auto

text \<open>
  C3. The claim says that with error checking on, versions 1 and 2 are accepted. In
  the code the test \<open>version != 1 or version != 2\<close> holds for every version: with
  error checking on, the dataspace handler never returns; it raises
  \<open>unsupported dataspace version\<close> as soon as its first three fields are read (or
  \<open>struct.error\<close> when the file ends before them).
\<close>

theorem dataspaceMsgHandler_rejects_every_version:
  assumes "errorChecking g"
  shows "outcome (dataspaceMsgHandler g msg_size obj_hdr_flags s) = Inl StructError
       \<or> outcome (dataspaceMsgHandler g msg_size obj_hdr_flags s)
            = Inl (FatalError ''unsupported dataspace version'')"
proof (cases "readField 1 s")
  case (Inl x)
  then show ?thesis
    by (cases x) (auto simp: dataspaceMsgHandler_def bindR_def outcome_def Let_def dest: readField_1_error)
next
  case v: (Inr x)
  obtain version s1 where x: "x = (version, s1)" by (cases x)
  show ?thesis
  proof (cases "readField 1 s1")
    case (Inl y)
    then show ?thesis using v x
      by (cases y) (auto simp: dataspaceMsgHandler_def bindR_def outcome_def Let_def dest: readField_1_error)
  next
    case d: (Inr y)
    obtain dimensionality s2 where y: "y = (dimensionality, s2)" by (cases y)
    show ?thesis
    proof (cases "readField 1 s2")
      case (Inl z)
      then show ?thesis using v x d y
        by (cases z) (auto simp: dataspaceMsgHandler_def bindR_def outcome_def Let_def dest: readField_1_error)
    next
      case (Inr z)
      then show ?thesis using v x d y assms
        by (cases z)
          (simp add: dataspaceMsgHandler_def bindR_def outcome_def Let_def skip_def modify_def
            whenever_def raise_def not_1_or_not_2)
    qed
  qed
qed

theorem dataspaceMsgHandler_rejects_every_version_witness:
  "outcome (dataspaceMsgHandler source_globals 16 0 (init (resource_of dataspace_message) ''x''))
     = Inl (FatalError ''unsupported dataspace version'')"
proof -
  have e: "errorChecking source_globals" by (simp add: source_globals_def)
  have r: "outcome (dataspaceMsgHandler source_globals 16 0 (init (resource_of dataspace_message) ''x''))
     \<noteq> Inl StructError"
    by code_simp
  from dataspaceMsgHandler_rejects_every_version [OF e, of 16 0 "init (resource_of dataspace_message) ''x''"] r
  show ?thesis by blast
qed

subsection \<open>The cache-line mask and slices of a file\<close>

lemma mask_const: "(0xFFFFFFFFFFFFFFF0 :: int) = mask (60 + 4) AND NOT (mask 4)"
  unfolding push_bit_mask_eq [symmetric] by (simp add: push_bit_eq_mult mask_eq_exp_minus_1)

lemma and_line_mask:
  fixes x :: int
  shows "x AND CACHE_LINE_MASK = 16 * ((x div 16) mod 2 ^ 60)"
proof -
  have "x AND 0xFFFFFFFFFFFFFFF0 = x AND mask (60 + 4) AND NOT (mask 4)"
    by (simp only: mask_const and.assoc)
  also have "\<dots> = push_bit 4 (take_bit 60 (drop_bit 4 x))"
    by (simp only: slice_eq_mask)
  also have "\<dots> = 16 * ((x div 16) mod 2 ^ 60)"
    by (simp add: push_bit_eq_mult take_bit_eq_mod drop_bit_eq_div)
  finally show ?thesis by (simp only: CACHE_LINE_MASK_def)
qed

lemma and_line_mask_small:
  fixes x :: int
  assumes "0 \<le> x" "x < 2 ^ 64"
  shows "x AND CACHE_LINE_MASK = x - x mod 16"
proof -
  have "x div 16 < 2 ^ 60" using assms by simp
  moreover have "0 \<le> x div 16" using assms by simp
  ultimately have "(x div 16) mod 2 ^ 60 = x div 16" by simp
  then show ?thesis by (simp add: and_line_mask minus_mod_eq_mult_div)
qed

lemma length_file_read [simp]: "length (file_read f off len) = nat len"
  by (simp add: file_read_def)

lemma file_read_drop: "0 \<le> a \<Longrightarrow> drop (nat a) (file_read f off len) = file_read f (off + a) (len - a)"
  by (auto simp: file_read_def drop_map list_eq_iff_nth_eq nat_diff_distrib add.assoc)

lemma file_read_take: "b \<le> len \<Longrightarrow> take (nat b) (file_read f off len) = file_read f off b"
  by (auto simp: file_read_def take_map list_eq_iff_nth_eq)

lemma file_read_append:
  "0 \<le> a \<Longrightarrow> 0 \<le> b \<Longrightarrow> file_read f off a @ file_read f (off + a) b = file_read f off (a + b)"
  by (auto simp: file_read_def list_eq_iff_nth_eq nth_append nat_add_distrib add.assoc)

lemma slice_file_read:
  "0 \<le> a \<Longrightarrow> a \<le> b \<Longrightarrow> b \<le> len \<Longrightarrow>
   slice (file_read f off len) a b = file_read f (off + a) (b - a)"
  by (simp add: slice_def clamp_index_def Let_def file_read_drop file_read_take min_def)

lemma slice_from_file_read:
  "0 \<le> a \<Longrightarrow> a \<le> len \<Longrightarrow> slice_from (file_read f off len) a = file_read f (off + a) (len - a)"
  by (simp add: slice_from_def clamp_index_def file_read_drop min_def)

lemma slice_to_file_read:
  "0 \<le> b \<Longrightarrow> b \<le> len \<Longrightarrow> slice_to (file_read f off len) b = file_read f off b"
  by (simp add: slice_to_def clamp_index_def file_read_take min_def)


lemma populate_cached:
  "driver r = file_read f \<Longrightarrow> cache_ok f r \<Longrightarrow> cached (populate r line) line = file_read f line 16"
  by (auto simp: populate_def cached_def cache_ok_def driver_read_def CACHE_LINE_SIZE_def split: option.splits)

lemma populate_cache_ok:
  "driver r = file_read f \<Longrightarrow> cache_ok f r \<Longrightarrow> cache_ok f (populate r line)"
  by (auto simp: populate_def cache_ok_def driver_read_def CACHE_LINE_SIZE_def split: option.splits)

lemma populate_driver [simp]: "driver (populate r line) = driver r"
  by (auto simp: populate_def driver_read_def split: option.splits)

lemma populate_base [simp]: "baseAddress (populate r line) = baseAddress r"
  by (auto simp: populate_def driver_read_def split: option.splits)

lemma populate_keeps:
  "cache r l = Some bs \<Longrightarrow> cached (populate r line) l = bs"
  by (auto simp: populate_def cached_def driver_read_def split: option.splits)

lemma populate_reads:
  "\<exists>new. driver_reads (populate r line) = driver_reads r @ new \<and> length new \<le> 1"
  by (auto simp: populate_def driver_read_def split: option.splits)

lemma populate_in_cache: "cache (populate r line) line \<noteq> None"
  by (auto simp: populate_def driver_read_def split: option.splits)

lemma populate_cached_other:
  assumes "driver r = file_read f" "cache_ok f r" "cache r l \<noteq> None"
  shows "cached (populate r line) l = file_read f l 16"
proof -
  from assms(3) obtain bs where bs: "cache r l = Some bs" by auto
  with assms(2) have "bs = file_read f l 16" by (simp add: cache_ok_def CACHE_LINE_SIZE_def)
  with populate_keeps [OF bs] show ?thesis by simp
qed

lemma mod_between: "16 < (x::int) \<Longrightarrow> x < 32 \<Longrightarrow> x mod 16 = x - 16"
proof -
  assume a: "16 < x" "x < 32"
  have "x mod 16 = ((x - 16) + 16) mod 16" by simp
  also have "\<dots> = (x - 16) mod 16" by (rule mod_add_self2)
  also have "\<dots> = x - 16" using a by (intro mod_pos_pos_trivial) simp_all
  finally show ?thesis .
qed

lemma populate_hit: "cache r line \<noteq> None \<Longrightarrow> populate r line = r"
  by (auto simp: populate_def)

lemma populate_mono: "cache r l \<noteq> None \<Longrightarrow> cache (populate r line) l \<noteq> None"
  by (auto simp: populate_def driver_read_def split: option.splits)

subsection \<open>C4: what \<open>ioRequest\<close> returns, and how many driver reads it costs\<close>

lemma ioRequest_exact:
  assumes drv: "driver r = file_read f"
    and ok: "cache_ok f r"
    and lo: "0 \<le> off + baseAddress r"
    and hi: "off + baseAddress r < 2 ^ 64"
    and n0: "0 \<le> n"
    and top: "off + baseAddress r + n \<le> 2 ^ 64"
  shows "fst (ioRequest r off n) = driver r (off + baseAddress r) n
       \<and> int (length (fst (ioRequest r off n))) = n
       \<and> (\<exists>new. driver_reads (snd (ioRequest r off n)) = driver_reads r @ new \<and> length new \<le> 2)
       \<and> cache_ok f (snd (ioRequest r off n))"
proof (cases "n \<le> CACHE_LINE_SIZE")
  case False
  then show ?thesis using drv ok n0
    by (simp add: ioRequest_def driver_read_def cache_ok_def)
next
  case True
  define a where "a = off + baseAddress r"
  define line where "line = a AND CACHE_LINE_MASK"
  define r1 where "r1 = populate r line"
  define start where "start = a - line"
  have line: "line = a - a mod 16"
    unfolding line_def using lo hi by (simp add: and_line_mask_small a_def)
  have start: "start = a mod 16" by (simp add: start_def line)
  have s0: "0 \<le> start" and s16: "start < 16" by (simp_all add: start)
  have c1: "cached r1 line = file_read f line 16"
    unfolding r1_def by (rule populate_cached [OF drv ok])
  have ok1: "cache_ok f r1" unfolding r1_def by (rule populate_cache_ok [OF drv ok])
  have drv1: "driver r1 = file_read f" by (simp add: r1_def drv)
  obtain new1 where new1: "driver_reads r1 = driver_reads r @ new1" "length new1 \<le> 1"
    using populate_reads [of r line] by (auto simp: r1_def)
  show ?thesis
  proof (cases "start + n \<le> CACHE_LINE_SIZE")
    case le: True
    have res: "ioRequest r off n = (slice (cached r1 line) start (start + n), r1)"
      using True le by (simp add: ioRequest_def Let_def a_def line_def r1_def start_def)
    have "slice (cached r1 line) start (start + n) = file_read f (line + start) n"
      using s0 n0 le by (simp add: c1 slice_file_read CACHE_LINE_SIZE_def)
    moreover have "line + start = a" by (simp add: start_def)
    ultimately show ?thesis using res ok1 new1 n0 drv
      by (auto simp: a_def)
  next
    case gt: False
    define nxt where "nxt = (line + (start + n)) AND CACHE_LINE_MASK"
    define r2 where "r2 = populate r1 nxt"
    have res: "ioRequest r off n =
        (slice_from (cached r2 line) start @ slice_to (cached r2 nxt) (start + n - CACHE_LINE_SIZE), r2)"
      using True gt by (simp add: ioRequest_def Let_def a_def line_def r1_def start_def nxt_def r2_def)
    have an: "line + (start + n) = a + n" by (simp add: start_def)
    have n16: "n \<le> 16" using True by (simp add: CACHE_LINE_SIZE_def)
    have g16: "16 < start + n" using gt by (simp add: CACHE_LINE_SIZE_def)
    have "a + n \<noteq> 2 ^ 64"
    proof
      assume e: "a + n = 2 ^ 64"
      have "(a + n) mod 16 = 0" unfolding e by simp
      moreover have "a + n = line + (start + n)" by (simp add: an)
      moreover have "line mod 16 = 0" by (simp add: line)
      ultimately have "(start + n) mod 16 = 0" by (metis add.left_neutral mod_add_left_eq)
      with g16 s16 n16 show False by presburger
    qed
    then have lt: "a + n < 2 ^ 64" using top by (simp add: a_def)
    have "nxt = (a + n) - (a + n) mod 16"
      unfolding nxt_def an using lo n0 lt by (simp add: and_line_mask_small a_def)
    moreover have "(a + n) mod 16 = start + n - 16"
    proof -
      have "a + n = line + (start + n)" by (simp add: an)
      moreover have "line mod 16 = 0" by (simp add: line)
      ultimately have "(a + n) mod 16 = (start + n) mod 16" by (metis add.left_neutral mod_add_left_eq)
      moreover have "(start + n) mod 16 = start + n - 16"
        using g16 s16 n16 by (intro mod_between) simp_all
      ultimately show ?thesis by simp
    qed
    ultimately have nxt: "nxt = line + 16" using an by simp
    have c2n: "cached r2 nxt = file_read f nxt 16"
      unfolding r2_def by (rule populate_cached [OF drv1 ok1])
    have "cache r1 line \<noteq> None" unfolding r1_def by (rule populate_in_cache)
    then have c2l: "cached r2 line = file_read f line 16"
      unfolding r2_def by (rule populate_cached_other [OF drv1 ok1])
    have ok2: "cache_ok f r2" unfolding r2_def by (rule populate_cache_ok [OF drv1 ok1])
    obtain new2 where new2: "driver_reads r2 = driver_reads r1 @ new2" "length new2 \<le> 1"
      using populate_reads [of r1 nxt] by (auto simp: r2_def)
    have "slice_from (cached r2 line) start = file_read f (line + start) (16 - start)"
      using s0 s16 by (simp add: c2l slice_from_file_read)
    moreover have "slice_to (cached r2 nxt) (start + n - CACHE_LINE_SIZE) = file_read f (line + 16) (start + n - 16)"
      using g16 s16 n16 by (simp add: c2n [unfolded nxt] slice_to_file_read nxt CACHE_LINE_SIZE_def)
    moreover have "file_read f (line + start) (16 - start) @ file_read f (line + start + (16 - start)) (start + n - 16)
        = file_read f (line + start) ((16 - start) + (start + n - 16))"
      using s16 g16 by (intro file_read_append) simp_all
    moreover have "line + start = a" by (simp add: start_def)
    moreover have "a + (16 - start) = line + 16" by (simp add: start_def)
    ultimately have data: "fst (ioRequest r off n) = file_read f a n"
      by (simp add: res)
    have "driver_reads r2 = driver_reads r @ (new1 @ new2)" "length (new1 @ new2) \<le> 2"
      using new1 new2 by simp_all
    then have "\<exists>new. driver_reads r2 = driver_reads r @ new \<and> length new \<le> 2" by blast
    then show ?thesis using data ok2 n0 drv by (simp add: res a_def)
  qed
qed



lemma ioRequest_reads:
  "\<exists>new. driver_reads (snd (ioRequest r off n)) = driver_reads r @ new \<and> length new \<le> 2"
proof (cases "n \<le> CACHE_LINE_SIZE")
  case False
  then show ?thesis by (simp add: ioRequest_def driver_read_def)
next
  case True
  define line where "line = (off + baseAddress r) AND CACHE_LINE_MASK"
  define r1 where "r1 = populate r line"
  define start where "start = off + baseAddress r - line"
  obtain new1 where new1: "driver_reads r1 = driver_reads r @ new1" "length new1 \<le> 1"
    using populate_reads [of r line] by (auto simp: r1_def)
  show ?thesis
  proof (cases "start + n \<le> CACHE_LINE_SIZE")
    case le: True
    have "snd (ioRequest r off n) = r1"
      using True le by (simp add: ioRequest_def Let_def line_def r1_def start_def)
    then show ?thesis using new1 by auto
  next
    case gt: False
    define r2 where "r2 = populate r1 ((line + (start + n)) AND CACHE_LINE_MASK)"
    obtain new2 where new2: "driver_reads r2 = driver_reads r1 @ new2" "length new2 \<le> 1"
      using populate_reads [of r1 "(line + (start + n)) AND CACHE_LINE_MASK"] by (auto simp: r2_def)
    have "snd (ioRequest r off n) = r2"
      using True gt by (simp add: ioRequest_def Let_def line_def r1_def start_def r2_def)
    moreover have "driver_reads r2 = driver_reads r @ (new1 @ new2)" "length (new1 @ new2) \<le> 2"
      using new1 new2 by simp_all
    ultimately show ?thesis by metis
  qed
qed

lemma ioRequest_driver: "driver (snd (ioRequest r off n)) = driver r"
  by (simp add: ioRequest_def Let_def driver_read_def)

lemma ioRequest_cache_ok:
  assumes "driver r = file_read f" "cache_ok f r"
  shows "cache_ok f (snd (ioRequest r off n))"
proof (cases "n \<le> CACHE_LINE_SIZE")
  case False
  then show ?thesis using assms by (simp add: ioRequest_def driver_read_def cache_ok_def)
next
  case True
  have 1: "cache_ok f (populate r l)" for l by (rule populate_cache_ok [OF assms])
  have 2: "cache_ok f (populate (populate r l) l')" for l l'
    by (rule populate_cache_ok [OF _ 1]) (simp add: assms)
  show ?thesis using True 1 2 by (simp add: ioRequest_def Let_def)
qed

lemma reachable_invariant: "reachable f r \<Longrightarrow> driver r = file_read f \<and> cache_ok f r"
proof (induction rule: reachable.induct)
  case (constructed r)
  then show ?case by (simp add: cache_ok_def)
next
  case (requested r off n)
  then show ?case by (simp add: ioRequest_cache_ok ioRequest_driver)
next
  case (superblock_read r osz lsz base root)
  then show ?case by (simp add: cache_ok_def)
qed

text \<open>
  C4. Whatever the request, \<open>ioRequest\<close> issues at most two driver reads (so also
  for \<open>n \<le> 2 * CACHE_LINE_SIZE\<close>; a request larger than a line is one direct read).
  For a driver that returns exactly the requested bytes of the resource and a cache
  that holds only lines the driver returned, an absolute offset \<open>off + baseAddress\<close>
  within the 64 bits of an HDF5 address and a size \<open>n \<ge> 0\<close> with
  \<open>off + baseAddress + n \<le> 2^64\<close>, \<open>ioRequest\<close> returns exactly the \<open>n\<close> bytes
  \<open>driver.read(off + baseAddress, n)\<close>, and leaves the cache holding only lines the
  driver returned. Every state a run can reach has such a cache.
\<close>

theorem ioRequest_exact_in_range:
  "(\<exists>new. driver_reads (snd (ioRequest r off n)) = driver_reads r @ new \<and> length new \<le> 2)
   \<and> (driver r = file_read f \<and> cache_ok f r \<and> 0 \<le> off + baseAddress r \<and>
      off + baseAddress r < 2 ^ 64 \<and> 0 \<le> n \<and> off + baseAddress r + n \<le> 2 ^ 64 \<longrightarrow>
      fst (ioRequest r off n) = driver r (off + baseAddress r) n
      \<and> int (length (fst (ioRequest r off n))) = n
      \<and> cache_ok f (snd (ioRequest r off n)))
   \<and> (reachable f r \<longrightarrow> driver r = file_read f \<and> cache_ok f r)"
  using ioRequest_reads [of r off n] ioRequest_exact [of r f off n] reachable_invariant [of f r]
  by blast

theorem ioRequest_exact_in_range_witness:
  "reachable (\<lambda>i. word_of_int i) counting_resource
   \<and> fst (ioRequest counting_resource 13 5) = driver counting_resource 13 5
   \<and> length (fst (ioRequest counting_resource 13 5)) = 5
   \<and> (\<exists>new. driver_reads (snd (ioRequest counting_resource 13 5)) = new \<and> length new \<le> 2)"
proof -
  have r: "reachable (\<lambda>i. word_of_int i) counting_resource"
    by (rule reachable.constructed) (simp_all add: counting_resource_def)
  have b: "baseAddress counting_resource = 0" and d: "driver_reads counting_resource = []"
    by (simp_all add: counting_resource_def)
  note t = ioRequest_exact_in_range [of counting_resource 13 5 "\<lambda>i. word_of_int i"]
  from t r have inv: "driver counting_resource = file_read (\<lambda>i. word_of_int i)
      \<and> cache_ok (\<lambda>i. word_of_int i) counting_resource"
    by blast
  have range: "0 \<le> 13 + baseAddress counting_resource \<and> 13 + baseAddress counting_resource < 2 ^ 64
      \<and> (0::int) \<le> 5 \<and> 13 + baseAddress counting_resource + 5 \<le> 2 ^ 64"
    by (simp add: b)
  from t inv range have e: "fst (ioRequest counting_resource 13 5)
        = driver counting_resource (13 + baseAddress counting_resource) 5"
    and l: "int (length (fst (ioRequest counting_resource 13 5))) = 5"
    by blast+
  from t obtain new where n: "driver_reads (snd (ioRequest counting_resource 13 5))
       = driver_reads counting_resource @ new" "length new \<le> 2"
    by blast
  have 1: "fst (ioRequest counting_resource 13 5) = driver counting_resource 13 5"
    using e by (simp only: b add_0_right)
  have 2: "length (fst (ioRequest counting_resource 13 5)) = 5"
    using l by linarith
  have 3: "\<exists>new. driver_reads (snd (ioRequest counting_resource 13 5)) = new \<and> length new \<le> 2"
    using n by (simp only: d append_Nil) blast
  from r 1 2 3 show ?thesis by (intro conjI)
qed

subsection \<open>C5: a repeated \<open>ioRequest\<close>\<close>

lemma ioRequest_repeat_cached:
  assumes "n \<le> CACHE_LINE_SIZE"
  shows "ioRequest (snd (ioRequest r off n)) off n = (fst (ioRequest r off n), snd (ioRequest r off n))"
proof -
  define line where "line = (off + baseAddress r) AND CACHE_LINE_MASK"
  define r1 where "r1 = populate r line"
  define start where "start = off + baseAddress r - line"
  have in1: "cache r1 line \<noteq> None" unfolding r1_def by (rule populate_in_cache)
  show ?thesis
  proof (cases "start + n \<le> CACHE_LINE_SIZE")
    case True
    have res: "ioRequest r off n = (slice (cached r1 line) start (start + n), r1)"
      using assms True by (simp add: ioRequest_def Let_def line_def r1_def start_def)
    have "ioRequest r1 off n = (slice (cached r1 line) start (start + n), r1)"
      using assms True in1
      by (simp add: ioRequest_def Let_def line_def [symmetric] r1_def [symmetric] start_def [symmetric]
          populate_hit r1_def [THEN arg_cong, of baseAddress, simplified])
    then show ?thesis by (simp add: res)
  next
    case False
    define nxt where "nxt = (line + (start + n)) AND CACHE_LINE_MASK"
    define r2 where "r2 = populate r1 nxt"
    have res: "ioRequest r off n =
        (slice_from (cached r2 line) start @ slice_to (cached r2 nxt) (start + n - CACHE_LINE_SIZE), r2)"
      using assms False by (simp add: ioRequest_def Let_def line_def r1_def start_def nxt_def r2_def)
    have in2: "cache r2 line \<noteq> None" unfolding r2_def using in1 by (rule populate_mono)
    have in2n: "cache r2 nxt \<noteq> None" unfolding r2_def by (rule populate_in_cache)
    have b: "baseAddress r2 = baseAddress r" by (simp add: r2_def r1_def)
    have "ioRequest r2 off n =
        (slice_from (cached r2 line) start @ slice_to (cached r2 nxt) (start + n - CACHE_LINE_SIZE), r2)"
      using assms False in2 in2n
      by (simp add: ioRequest_def Let_def b line_def [symmetric] start_def [symmetric]
          nxt_def [symmetric] populate_hit)
    then show ?thesis by (simp add: res)
  qed
qed


text \<open>
  C5, as amended. Repeating a request returns the same bytes, whatever the offset and
  the size, and leaves the cache as the first call left it. The second call issues no
  driver read when the request goes through the cache (\<open>n \<le> CACHE_LINE_SIZE\<close>), and
  exactly one, the direct read of \<open>n\<close> bytes at \<open>off + baseAddress\<close>, when it is larger
  than a cache line.
\<close>

theorem ioRequest_idempotent:
  "fst (ioRequest (snd (ioRequest r off n)) off n) = fst (ioRequest r off n)
   \<and> driver_reads (snd (ioRequest (snd (ioRequest r off n)) off n))
       = driver_reads (snd (ioRequest r off n))
         @ (if n \<le> CACHE_LINE_SIZE then [] else [(off + baseAddress r, n)])
   \<and> cache (snd (ioRequest (snd (ioRequest r off n)) off n)) = cache (snd (ioRequest r off n))"
proof (cases "n \<le> CACHE_LINE_SIZE")
  case True
  from ioRequest_repeat_cached [OF True, of r off] show ?thesis using True by simp
next
  case False
  then show ?thesis by (simp add: ioRequest_def driver_read_def)
qed

theorem ioRequest_idempotent_witness:
  "fst (ioRequest (snd (ioRequest counting_resource 13 5)) 13 5) = fst (ioRequest counting_resource 13 5)
   \<and> driver_reads (snd (ioRequest (snd (ioRequest counting_resource 13 5)) 13 5))
     = driver_reads (snd (ioRequest counting_resource 13 5))
   \<and> fst (ioRequest (snd (ioRequest counting_resource 3 40)) 3 40) = fst (ioRequest counting_resource 3 40)
   \<and> driver_reads (snd (ioRequest (snd (ioRequest counting_resource 3 40)) 3 40))
     = driver_reads (snd (ioRequest counting_resource 3 40)) @ [(3, 40)]"
  using ioRequest_idempotent [of counting_resource 13 5] ioRequest_idempotent [of counting_resource 3 40]
  by (simp add: CACHE_LINE_SIZE_def counting_resource_def)

text \<open>
  C5 as stated (zero driver reads for every size) fails for a request larger than a
  cache line: it is read directly from the driver each time, so the second call issues
  one more read.
\<close>

theorem ioRequest_bypass_rereads_counterexample:
  "driver_reads (snd (ioRequest (snd (ioRequest counting_resource 0 17)) 0 17))
     = driver_reads (snd (ioRequest counting_resource 0 17)) @ [(0, 17)]"
  by (simp add: ioRequest_def counting_resource_def CACHE_LINE_SIZE_def driver_read_def)

subsection \<open>C6: the inclusion test of \<open>readBTreeV1\<close>\<close>

text \<open>
  C6, as amended. For a request of at least one row, the four-disjunct test under
  \<open># check inclusion\<close> holds exactly when the closed interval
  \<open>[data_key1, data_key2]\<close> meets the half-open interval \<open>[child_key1, child_key2)\<close>,
  provided \<open>child_key1 < child_key2\<close>. When \<open>child_key2 \<le> child_key1\<close> (consecutive
  keys of chunks that lie side by side in the same band of rows have the same row), the
  half-open interval is empty and the test holds exactly when \<open>child_key1\<close> lies in
  \<open>[data_key1, data_key2]\<close> or \<open>child_key2\<close> lies strictly between the two data keys.
\<close>

theorem check_inclusion_meaning:
  assumes "1 \<le> num_rows"
  shows "check_inclusion (data_key1 start_row) (data_key2 start_row num_rows) ck1 ck2 \<longleftrightarrow>
     (if ck1 < ck2
      then {data_key1 start_row..data_key2 start_row num_rows} \<inter> {ck1..<ck2} \<noteq> {}
      else (data_key1 start_row \<le> ck1 \<and> ck1 \<le> data_key2 start_row num_rows) \<or>
           (data_key1 start_row < ck2 \<and> ck2 < data_key2 start_row num_rows))"
proof -
  define dk1 where "dk1 = data_key1 start_row"
  define dk2 where "dk2 = data_key2 start_row num_rows"
  have le: "dk1 \<le> dk2" using assms by (simp add: dk1_def dk2_def data_key1_def data_key2_def)
  have "check_inclusion dk1 dk2 ck1 ck2 \<longleftrightarrow>
     (if ck1 < ck2 then {dk1..dk2} \<inter> {ck1..<ck2} \<noteq> {}
      else (dk1 \<le> ck1 \<and> ck1 \<le> dk2) \<or> (dk1 < ck2 \<and> ck2 < dk2))"
  proof (cases "ck1 < ck2")
    case True
    have "{dk1..dk2} \<inter> {ck1..<ck2} \<noteq> {} \<longleftrightarrow> ck1 \<le> dk2 \<and> dk1 < ck2"
    proof
      assume "{dk1..dk2} \<inter> {ck1..<ck2} \<noteq> {}"
      then obtain x where "dk1 \<le> x" "x \<le> dk2" "ck1 \<le> x" "x < ck2" by auto
      then show "ck1 \<le> dk2 \<and> dk1 < ck2" by linarith
    next
      assume a: "ck1 \<le> dk2 \<and> dk1 < ck2"
      have "max dk1 ck1 \<in> {dk1..dk2} \<inter> {ck1..<ck2}" using a le True by auto
      then show "{dk1..dk2} \<inter> {ck1..<ck2} \<noteq> {}" by blast
    qed
    moreover have "check_inclusion dk1 dk2 ck1 ck2 \<longleftrightarrow> ck1 \<le> dk2 \<and> dk1 < ck2"
      using le True unfolding check_inclusion_def by linarith
    ultimately show ?thesis using True by simp
  next
    case False
    then show ?thesis using le unfolding check_inclusion_def by auto
  qed
  then show ?thesis by (simp only: dk1_def dk2_def)
qed

theorem check_inclusion_meaning_witness:
  "check_inclusion (data_key1 100) (data_key2 100 10) 96 104
   \<and> {data_key1 100..data_key2 100 10} \<inter> {96..<104} \<noteq> {}"
  using check_inclusion_meaning [of 10 100 96 104]
  by (simp add: check_inclusion_def data_key1_def data_key2_def)

text \<open>
  C6 as stated fails when two consecutive keys have the same row: the child between
  keys of row 0 and row 0 is included for the request of rows 0 to 9, though
  \<open>[0, 0)\<close> is empty.
\<close>

theorem check_inclusion_equal_rows_counterexample:
  "check_inclusion (data_key1 0) (data_key2 0 10) 0 0
   \<and> {data_key1 0..data_key2 0 10} \<inter> {0..<0::int} = {}"
  by (simp add: check_inclusion_def data_key1_def data_key2_def)

subsection \<open>C7: the byte offset of a chunk\<close>

lemma mul_items_ok:
  "\<forall>k\<in>set ks. k < length xs \<Longrightarrow> mul_items xs ks acc = Inr (acc * prod_list (map (nth xs) ks))"
  by (induction ks arbitrary: acc) (auto simp: getitem_def Let_def mult.assoc)

lemma prod_list_upt: "prod_list (map f [a..<b]) = prod f {a..<b}"
  by (metis atLeastLessThan_upt distinct_upt prod.distinct_set_conv_list)

lemma slice_size_ok:
  assumes "i < nd" "nd \<le> length sl" "nd \<le> length cd" "nd \<le> length dims"
  shows "slice_size sl ts cd dims nd i =
     Inr (sl ! i * ts * (\<Prod>k<i. cd ! k) * (\<Prod>j = i + 1..<nd. dims ! j))"
proof -
  have "getitem sl (int i) = Inr (sl ! i)" using assms by (simp add: getitem_def)
  moreover have "mul_items cd [0..<i] (sl ! i * ts) = Inr (sl ! i * ts * (\<Prod>k<i. cd ! k))"
    using assms by (simp add: mul_items_ok prod_list_upt lessThan_atLeast0)
  moreover have "mul_items dims [i + 1..<nd] v = Inr (v * (\<Prod>j = i + 1..<nd. dims ! j))" for v
    using assms by (simp add: mul_items_ok prod_list_upt)
  ultimately show ?thesis by (simp add: slice_size_def)
qed

lemma chunk_offset_loop_ok:
  assumes "\<forall>i\<in>set is. i < nd" "nd \<le> length sl" "nd \<le> length cd" "nd \<le> length dims"
  shows "chunk_offset_loop sl ts cd dims nd is acc =
     Inr (acc + sum_list (map (\<lambda>i. sl ! i * ts * (\<Prod>k<i. cd ! k) * (\<Prod>j = i + 1..<nd. dims ! j)) is))"
  using assms by (induction "is" arbitrary: acc) (simp_all add: slice_size_ok add.assoc)

lemma sum_list_upt: "sum_list (map f [0..<n]) = sum f {..<n}"
  by (simp add: interv_sum_list_conv_sum_set_nat lessThan_atLeast0)

text \<open>
  C7, as amended. With \<open>ndims\<close> coordinates in the key and \<open>ndims\<close> entries in
  \<open>chunkDimensions\<close> and \<open>dimensions\<close>, the loop computes
  \<open>chunk_offset = \<Sum>i. slice[i] * typeSize * (\<Prod>k<i. chunkDimensions[k]) * (\<Prod>j>i. dimensions[j])\<close>,
  for every rank: a chunk is placed whole, the chunks of one band of rows one after
  the other. For ranks 0 and 1 this is the row-major linearization
  \<open>\<Sum>i. slice[i] * typeSize * (\<Prod>j>i. dimensions[j])\<close> of the claim.
\<close>

theorem chunk_offset_formula:
  assumes "nd \<le> length sl" "nd \<le> length cd" "nd \<le> length dims"
  shows "chunk_offset sl ts cd dims nd =
           Inr (\<Sum>i<nd. sl ! i * ts * (\<Prod>k<i. cd ! k) * (\<Prod>j = i + 1..<nd. dims ! j))
       \<and> (nd \<le> 1 \<longrightarrow> chunk_offset sl ts cd dims nd =
           Inr (\<Sum>i<nd. sl ! i * ts * (\<Prod>j = i + 1..<nd. dims ! j)))"
proof -
  have g: "chunk_offset sl ts cd dims nd =
           Inr (\<Sum>i<nd. sl ! i * ts * (\<Prod>k<i. cd ! k) * (\<Prod>j = i + 1..<nd. dims ! j))"
    using assms by (simp add: chunk_offset_def chunk_offset_loop_ok sum_list_upt)
  have "(\<Sum>i<nd. sl ! i * ts * (\<Prod>k<i. cd ! k) * (\<Prod>j = i + 1..<nd. dims ! j))
       = (\<Sum>i<nd. sl ! i * ts * (\<Prod>j = i + 1..<nd. dims ! j))" if "nd \<le> 1"
  proof -
    from that have "nd = 0 \<or> nd = 1" by linarith
    then show ?thesis by auto
  qed
  with g show ?thesis by simp
qed

theorem chunk_offset_formula_witness:
  "chunk_offset [3] 4 [8] [100] 1 = Inr 12"
  using chunk_offset_formula [of 1 "[3]" "[8]" "[100]" 4]
  by simp

text \<open>
  C7 as stated fails at rank 2: for the chunk at origin \<open>(0, 1)\<close> of a dataset of
  \<open>2 \<times> 2\<close> one-byte elements in chunks of \<open>2 \<times> 1\<close>, the code computes offset 2,
  the row-major linearization of the claim is 1.
\<close>

theorem chunk_offset_rank2_counterexample:
  "chunk_offset [0, 1] 1 [2, 1] [2, 2] 2 = Inr 2
   \<and> (\<Sum>i<2. [0, 1::int] ! i * 1 * (\<Prod>j = i + 1..<2. [2, 2] ! j)) = 1"
  by (simp add: chunk_offset_def slice_size_def getitem_def upt_conv_Cons lessThan_Suc numeral_2_eq_2)

subsection \<open>C8: which errors \<open>readMessage\<close> catches\<close>











subsection \<open>C9: the fill value\<close>

text \<open>
  C9. The claim says that a chunked read with \<open>fillsize > 0\<close> fills the buffer with
  the stored fill value. The code builds the fill from \<open>self.fill\<close>, which is never
  assigned (the handler stores \<open>self.fillvalue\<close>): for a header with a datatype, a
  dataspace of 10 rows, a fill value of 4 bytes and a chunked layout, read with error
  checking off, the header walk succeeds and \<open>readDataset\<close> raises
  \<open>AttributeError\<close> at the fill.
\<close>

theorem readDataset_fill_raises:
  "outcome (readObjHdr 9 unchecked_globals (readMessage 9 unchecked_globals)
      (init (resource_of chunked_fill_file) ''x'')) = Inr ()
   \<and> layout (final (readObjHdr 9 unchecked_globals (readMessage 9 unchecked_globals)
      (init (resource_of chunked_fill_file) ''x''))) = Some CHUNKED_LAYOUT
   \<and> fillsize (final (readObjHdr 9 unchecked_globals (readMessage 9 unchecked_globals)
      (init (resource_of chunked_fill_file) ''x''))) = 4
   \<and> fillvalue (final (readObjHdr 9 unchecked_globals (readMessage 9 unchecked_globals)
      (init (resource_of chunked_fill_file) ''x''))) = Some 0xDEADBEEF
   \<and> metaOnly (init (resource_of chunked_fill_file) ''x'') = False
   \<and> outcome (readDataset 9 unchecked_globals (init (resource_of chunked_fill_file) ''x''))
       = Inl (AttributeError ''fill'')"
  by code_simp

subsection \<open>C10: a leading slash\<close>

text \<open>
  C10. The claim says that \<open>"/" + p\<close> reads as \<open>p\<close> does. In the code
  \<open>dataset.split('/')\<close> keeps the empty first component and nothing skips it: for a
  root group with a hard link \<open>a\<close> to an object with a datatype message, the path
  \<open>a\<close> follows the link (the type size is read) and the path \<open>/a\<close> does not, and
  \<open>readDataset\<close> ends differently.
\<close>

theorem leading_slash_changes_the_walk:
  "datasetPath (init (resource_of link_file) ''a'') = [''a'']
   \<and> datasetPath (init (resource_of link_file) ''/a'') = ['''', ''a'']
   \<and> typeSize (final (readObjHdr 5 source_globals (readMessage 5 source_globals)
        (init (resource_of link_file) ''a''))) = 4
   \<and> typeSize (final (readObjHdr 5 source_globals (readMessage 5 source_globals)
        (init (resource_of link_file) ''/a''))) = 0
   \<and> outcome (readDataset 5 source_globals (init (resource_of link_file) ''a''))
       = Inl (FatalError ''missing data dimension information'')
   \<and> outcome (readDataset 5 source_globals (init (resource_of link_file) ''/a''))
       = Inl (FatalError ''missing data type information'')"
  by code_simp

end
